theory Spec2Isabelle
  imports Main
begin

section \<open>Data model\<close>

text \<open>
  The development follows \<open>src/wrf/util.py\<close>, the multi-file variable combination
  engine of wrf-python.  Exceptions are values of the type \<open>error\<close>; a function that can
  raise returns \<open>error + 'r\<close> with \<open>Inl\<close> for the exception.  The exception raised for a
  global time index outside the combined extent,
  \<^verbatim>\<open>IndexError("timeidx {} is out of bounds".format(timeidx))\<close>, carries the index it
  reports.
\<close>

datatype error =
    StopIteration
  | KeyError string
  | IndexError string
  | TimeIdxOutOfBounds int
  | ValueError string
  | TypeError string
  | AttributeError string

text \<open>
  An n-dimensional array is its shape and its elements in row-major order.  The element
  type is a parameter: the code never computes with the elements, it copies and
  compares them.
\<close>

record 'a ndarray =
  shape :: "nat list"
  vals :: "'a list"

text \<open>
  A variable of a file: its data, the names of its dimensions and its attributes
  (\<open>coordinates\<close> is the one the code reads).  A dimension of a file is either a plain
  integer (PyNIO) or an object whose length is the size (netCDF4).
\<close>

record 'a variable =
  var_data :: "'a ndarray"
  var_dimensions :: "string list"
  var_attrs :: "string \<rightharpoonup> string"

datatype dimension = DimInt nat | DimObj nat

record 'a source =
  variables :: "string \<rightharpoonup> 'a variable"
  dimensions :: "string \<rightharpoonup> dimension"

section \<open>Reading a dimension\<close>

text \<open>
  \<open>extract_dim\<close> on a single file: \<^verbatim>\<open>d = wrfnc.dimensions[dim]\<close>, then
  \<^verbatim>\<open>len(d)\<close> for netCDF4 and \<^verbatim>\<open>d\<close> for PyNIO.
\<close>

definition extract_dim :: "'a source \<Rightarrow> string \<Rightarrow> error + nat" where
  "extract_dim wrfnc dim =
     (case dimensions wrfnc dim of
        None \<Rightarrow> Inl (KeyError dim)
      | Some (DimInt d) \<Rightarrow> Inr d
      | Some (DimObj n) \<Rightarrow> Inr n)"

section \<open>Time-index locator\<close>

text \<open>
  The loops of \<open>_find_forward\<close> and \<open>_find_reverse\<close>.  The block executed on the
  located file (\<^verbatim>\<open>if meta: return _build_data_array(wrfnc, varname, filetimeidx, ...)
  else: ... wrfnc.variables[varname][filetimeidx, :] ...\<close>) is the argument \<open>found\<close>: it
  receives the file and the local time index \<open>filetimeidx\<close>.
\<close>

fun find_forward_loop ::
  "('a source \<Rightarrow> int \<Rightarrow> error + 'r) \<Rightarrow> int \<Rightarrow> int \<Rightarrow> 'a source list \<Rightarrow> error + 'r" where
  "find_forward_loop found timeidx comboidx [] = Inl (TimeIdxOutOfBounds timeidx)"
| "find_forward_loop found timeidx comboidx (wrfnc # wrf_iter) =
     (case extract_dim wrfnc ''Time'' of
        Inl e \<Rightarrow> Inl e
      | Inr numtimes \<Rightarrow>
          if timeidx < comboidx + int numtimes
          then found wrfnc (timeidx - comboidx)
          else find_forward_loop found timeidx (comboidx + int numtimes) wrf_iter)"

definition find_forward ::
  "('a source \<Rightarrow> int \<Rightarrow> error + 'r) \<Rightarrow> 'a source list \<Rightarrow> int \<Rightarrow> error + 'r" where
  "find_forward found wrfseq timeidx = find_forward_loop found timeidx 0 wrfseq"

fun find_reverse_loop ::
  "('a source \<Rightarrow> int \<Rightarrow> error + 'r) \<Rightarrow> int \<Rightarrow> int \<Rightarrow> int \<Rightarrow> 'a source list \<Rightarrow> error + 'r" where
  "find_reverse_loop found timeidx revtimeidx comboidx [] = Inl (TimeIdxOutOfBounds timeidx)"
| "find_reverse_loop found timeidx revtimeidx comboidx (wrfnc # wrf_iter) =
     (case extract_dim wrfnc ''Time'' of
        Inl e \<Rightarrow> Inl e
      | Inr numtimes \<Rightarrow>
          if revtimeidx < comboidx + int numtimes
          then found wrfnc (int numtimes - (revtimeidx - comboidx) - 1)
          else find_reverse_loop found timeidx revtimeidx (comboidx + int numtimes) wrf_iter)"

definition find_reverse ::
  "('a source \<Rightarrow> int \<Rightarrow> error + 'r) \<Rightarrow> 'a source list \<Rightarrow> int \<Rightarrow> error + 'r" where
  "find_reverse found wrfseq timeidx =
     find_reverse_loop found timeidx (- timeidx - 1) 0 (rev wrfseq)"

definition find_arr_for_time ::
  "('a source \<Rightarrow> int \<Rightarrow> error + 'r) \<Rightarrow> 'a source list \<Rightarrow> int \<Rightarrow> error + 'r" where
  "find_arr_for_time found wrfseq timeidx =
     (if timeidx \<ge> 0 then find_forward found wrfseq timeidx
      else find_reverse found wrfseq timeidx)"

text \<open>The time extents of a sequence of files, when every file has a \<open>Time\<close> dimension.\<close>

definition has_extents :: "'a source list \<Rightarrow> nat list \<Rightarrow> bool" where
  "has_extents wrfseq ns = (map (\<lambda>w. extract_dim w ''Time'') wrfseq = map Inr ns)"

section \<open>numpy indexing\<close>

text \<open>
  The numpy operations the code uses, on the row-major model.  The variables of a file
  are read through the same operations (the file readers return numpy arrays).  A Python
  index \<open>i\<close> on an axis of size \<open>n\<close> stands for \<open>i + n\<close> when negative and is out of
  bounds outside \<open>[-n, n)\<close>.
\<close>

definition norm_index :: "nat \<Rightarrow> int \<Rightarrow> nat option" where
  "norm_index n i =
     (let j = (if i < 0 then i + int n else i)
      in if 0 \<le> j \<and> j < int n then Some (nat j) else None)"

text \<open>
  \<^verbatim>\<open>a[idxs]\<close> for a tuple of integers, one per axis: the element at the row-major offset.
  A tuple longer than the number of axes is numpy's "too many indices"; the code never
  builds a shorter one.
\<close>

fun flat_index :: "nat list \<Rightarrow> int list \<Rightarrow> nat option" where
  "flat_index [] [] = Some 0"
| "flat_index (n # s) (i # idxs) =
     (case norm_index n i of
        None \<Rightarrow> None
      | Some j \<Rightarrow>
          (case flat_index s idxs of
             None \<Rightarrow> None
           | Some r \<Rightarrow> Some (j * prod_list s + r)))"
| "flat_index s idxs = None"

definition getitem_tuple :: "'a ndarray \<Rightarrow> int list \<Rightarrow> error + 'a" where
  "getitem_tuple a idxs =
     (case flat_index (shape a) idxs of
        None \<Rightarrow> Inl (IndexError ''index out of bounds or too many indices'')
      | Some k \<Rightarrow> Inr (vals a ! k))"

text \<open>\<^verbatim>\<open>a[i, :]\<close>: needs two axes at least; the result drops the first axis.\<close>

definition getitem_row :: "'a ndarray \<Rightarrow> int \<Rightarrow> error + 'a ndarray" where
  "getitem_row a i =
     (case shape a of
        n # m # rest \<Rightarrow>
          (case norm_index n i of
             None \<Rightarrow> Inl (IndexError ''index is out of bounds for axis 0'')
           | Some j \<Rightarrow>
               Inr \<lparr>shape = m # rest,
                    vals = take (prod_list (m # rest)) (drop (j * prod_list (m # rest)) (vals a))\<rparr>)
      | _ \<Rightarrow> Inl (IndexError ''too many indices for array''))"

text \<open>\<^verbatim>\<open>a[np.newaxis, :]\<close>: a new leading axis of length 1, on an array with an axis.\<close>

definition newaxis0 :: "'a ndarray \<Rightarrow> error + 'a ndarray" where
  "newaxis0 a =
     (case shape a of
        [] \<Rightarrow> Inl (IndexError ''too many indices for array'')
      | n # rest \<Rightarrow> Inr (a\<lparr>shape := 1 # n # rest\<rparr>))"

text \<open>
  \<^verbatim>\<open>np.full(shape, fill)\<close>, and \<^verbatim>\<open>np.empty(shape)\<close>, whose content is whatever the memory
  holds: \<open>uninit k\<close> is the value found at the row-major position \<open>k\<close>.
\<close>

definition np_full :: "nat list \<Rightarrow> 'a \<Rightarrow> 'a ndarray" where
  "np_full s fill_value = \<lparr>shape = s, vals = replicate (prod_list s) fill_value\<rparr>"

definition np_empty :: "(nat \<Rightarrow> 'a) \<Rightarrow> nat list \<Rightarrow> 'a ndarray" where
  "np_empty uninit s = \<lparr>shape = s, vals = map uninit [0..<prod_list s]\<rparr>"

text \<open>
  Assignment to a slice broadcasts the value to the shape of the slice.  numpy first
  strips leading axes of length 1 off a value that has more axes than the target, then
  aligns the shapes at the right; an axis of the value must have the target's length or
  length 1 (it is then repeated).  Anything else is
  \<^verbatim>\<open>ValueError: could not broadcast input array\<close>.
\<close>

fun strip_ones :: "nat \<Rightarrow> nat list \<Rightarrow> nat list" where
  "strip_ones nd [] = []"
| "strip_ones nd (d # s) = (if nd < length (d # s) \<and> d = 1 then strip_ones nd s else d # s)"

definition chunks :: "nat \<Rightarrow> nat \<Rightarrow> 'a list \<Rightarrow> 'a list list" where
  "chunks k b xs = map (\<lambda>j. take b (drop (j * b) xs)) [0..<k]"

fun broadcastable :: "nat list \<Rightarrow> nat list \<Rightarrow> bool" where
  "broadcastable [] [] = True"
| "broadcastable (t # ts) (v # vs) = ((v = t \<or> v = 1) \<and> broadcastable ts vs)"
| "broadcastable ts vs = False"

fun broadcast_vals :: "nat list \<Rightarrow> nat list \<Rightarrow> 'a list \<Rightarrow> 'a list" where
  "broadcast_vals (t # ts) (v # vs) xs =
     (if v = t then concat (map (broadcast_vals ts vs) (chunks v (prod_list vs) xs))
      else concat (replicate t (broadcast_vals ts vs xs)))"
| "broadcast_vals ts vs xs = xs"

definition broadcast_to :: "nat list \<Rightarrow> 'a ndarray \<Rightarrow> 'a list option" where
  "broadcast_to target a =
     (let vs = strip_ones (length target) (shape a);
          padded = replicate (length target - length vs) 1 @ vs
      in if length target < length vs \<or> \<not> broadcastable target padded then None
         else Some (broadcast_vals target padded (vals a)))"

text \<open>
  \<^verbatim>\<open>out[startidx:endidx, :] = v\<close> for non-negative bounds: the slice is clipped to the
  length of the first axis.
\<close>

definition setitem_rows :: "'a ndarray \<Rightarrow> nat \<Rightarrow> nat \<Rightarrow> 'a ndarray \<Rightarrow> error + 'a ndarray" where
  "setitem_rows out startidx endidx v =
     (case shape out of
        n # m # rest \<Rightarrow>
          (let b = prod_list (m # rest);
               s = min startidx n;
               cnt = min endidx n - s
           in case broadcast_to (cnt # m # rest) v of
                None \<Rightarrow> Inl (ValueError ''could not broadcast input array'')
              | Some ys \<Rightarrow>
                  Inr (out\<lparr>vals := take (s * b) (vals out) @ ys @ drop ((s + cnt) * b) (vals out)\<rparr>))
      | _ \<Rightarrow> Inl (IndexError ''too many indices for array''))"

text \<open>\<^verbatim>\<open>out[idx, :] = v\<close> for a non-negative \<open>idx\<close>.\<close>

definition setitem_row :: "'a ndarray \<Rightarrow> nat \<Rightarrow> 'a ndarray \<Rightarrow> error + 'a ndarray" where
  "setitem_row out idx v =
     (case shape out of
        n # m # rest \<Rightarrow>
          (let b = prod_list (m # rest)
           in if n \<le> idx then Inl (IndexError ''index is out of bounds for axis 0'')
              else case broadcast_to (m # rest) v of
                     None \<Rightarrow> Inl (ValueError ''could not broadcast input array'')
                   | Some ys \<Rightarrow>
                       Inr (out\<lparr>vals := take (idx * b) (vals out) @ ys @ drop ((idx + 1) * b) (vals out)\<rparr>))
      | _ \<Rightarrow> Inl (IndexError ''too many indices for array''))"

text \<open>\<^verbatim>\<open>out[file_idx, 0:numtimes, :] = v\<close> for non-negative \<open>file_idx\<close> and \<open>numtimes\<close>.\<close>

definition setitem_file_rows ::
  "'a ndarray \<Rightarrow> nat \<Rightarrow> nat \<Rightarrow> 'a ndarray \<Rightarrow> error + 'a ndarray" where
  "setitem_file_rows out file_idx numtimes v =
     (case shape out of
        nf # mt # m # rest \<Rightarrow>
          (let b = prod_list (m # rest);
               cnt = min numtimes mt;
               off = file_idx * mt * b
           in if nf \<le> file_idx then Inl (IndexError ''index is out of bounds for axis 0'')
              else case broadcast_to (cnt # m # rest) v of
                     None \<Rightarrow> Inl (ValueError ''could not broadcast input array'')
                   | Some ys \<Rightarrow>
                       Inr (out\<lparr>vals := take off (vals out) @ ys @ drop (off + cnt * b) (vals out)\<rparr>))
      | _ \<Rightarrow> Inl (IndexError ''too many indices for array''))"

text \<open>
  \<^verbatim>\<open>a[:, timeidx, :]\<close> followed by \<^verbatim>\<open>[:, np.newaxis, :]\<close>, on the elements and on a mask
  alike: from every block of the first axis the row \<open>timeidx\<close> of the second axis.
\<close>

definition take_axis1 :: "nat list \<Rightarrow> nat \<Rightarrow> 'b list \<Rightarrow> 'b list" where
  "take_axis1 s j xs =
     (case s of
        nf # mt # rest \<Rightarrow>
          concat (map (\<lambda>f. take (prod_list rest) (drop ((f * mt + j) * prod_list rest) xs)) [0..<nf])
      | _ \<Rightarrow> xs)"

definition getitem_axis1 :: "'a ndarray \<Rightarrow> int \<Rightarrow> error + 'a ndarray" where
  "getitem_axis1 a i =
     (case shape a of
        nf # mt # m # rest \<Rightarrow>
          (case norm_index mt i of
             None \<Rightarrow> Inl (IndexError ''index is out of bounds for axis 1'')
           | Some j \<Rightarrow> Inr \<lparr>shape = nf # m # rest, vals = take_axis1 (shape a) j (vals a)\<rparr>)
      | _ \<Rightarrow> Inl (IndexError ''too many indices for array''))"

definition newaxis1 :: "'a ndarray \<Rightarrow> error + 'a ndarray" where
  "newaxis1 a =
     (case shape a of
        nf # m # rest \<Rightarrow> Inr (a\<lparr>shape := nf # 1 # m # rest\<rparr>)
      | _ \<Rightarrow> Inl (IndexError ''too many indices for array''))"

text \<open>
  The result of a combination is a plain array or a masked array (elements, mask and
  fill value).  \<^verbatim>\<open>np.ma.masked_values(a, fill)\<close> masks the positions whose element equals
  the fill value; equality of the element type stands for numpy's comparison.
  \<^verbatim>\<open>squeeze()\<close> drops the axes of length 1; elements and mask keep their order.
\<close>

datatype 'a array = NDArray "'a ndarray" | MaskedArray "'a ndarray" "bool list" 'a

definition masked_values :: "'a ndarray \<Rightarrow> 'a \<Rightarrow> 'a array" where
  "masked_values a fill_value = MaskedArray a (map (\<lambda>x. x = fill_value) (vals a)) fill_value"

fun data_of :: "'a array \<Rightarrow> 'a ndarray" where
  "data_of (NDArray a) = a"
| "data_of (MaskedArray a m f) = a"


definition squeeze_shape :: "nat list \<Rightarrow> nat list" where
  "squeeze_shape s = filter (\<lambda>d. d \<noteq> 1) s"

fun squeeze :: "'a array \<Rightarrow> 'a array" where
  "squeeze (NDArray a) = NDArray (a\<lparr>shape := squeeze_shape (shape a)\<rparr>)"
| "squeeze (MaskedArray a m f) = MaskedArray (a\<lparr>shape := squeeze_shape (shape a)\<rparr>) m f"

section \<open>Collections, cache tokens and the coordinate cache\<close>

text \<open>
  The input of a combination is a single file, a list (or tuple) of files, or a
  dictionary whose entries are again inputs.  A dictionary is an association list in
  key-iteration order.  \<open>is_multi_file\<close> and \<open>is_mapping\<close> are the constructors.
\<close>

datatype 'a files = Single "'a source" | Seq "'a source list"

datatype 'a wrfin = Files "'a files" | Dict "(string \<times> 'a wrfin) list"

text \<open>
  The cache token \<open>_key\<close>: \<open>None\<close>, an identifier, or a dictionary of tokens
  (\<open>get_id\<close>).  \<^verbatim>\<open>_key[k]\<close> raises on a token that is no dictionary or has no such key.
\<close>

datatype key = KNone | KId nat | KMap "(string \<times> key) list"

fun key_getitem :: "key \<Rightarrow> string \<Rightarrow> error + key" where
  "key_getitem (KMap m) k = (case map_of m k of None \<Rightarrow> Inl (KeyError k) | Some t \<Rightarrow> Inr t)"
| "key_getitem t k = Inl (TypeError ''object is not subscriptable'')"

text \<open>
  Modelled from the spec: the module \<open>cache\<close> (\<open>cache_item\<close>, \<open>get_cached_item\<close>) is not
  among the sources.  The spec describes a key-value store keyed by (token,
  product name), with \<open>get(token, product)\<close> giving the value or absent and
  \<open>put(token, product, value)\<close>, and no eviction.  A cached value is a moving-domain flag,
  a tuple of dimension names or an array.
\<close>

datatype 'a cached = Flag bool | DimNames "string list" | CoordVals "'a ndarray"

type_synonym 'a cache = "(key \<times> string) \<rightharpoonup> 'a cached"

definition get_cached_item :: "'a cache \<Rightarrow> key \<Rightarrow> string \<Rightarrow> 'a cached option" where
  "get_cached_item c k product = c (k, product)"

definition cache_item :: "key \<Rightarrow> string \<Rightarrow> 'a cached \<Rightarrow> 'a cache \<Rightarrow> 'a cache" where
  "cache_item k product v c = c((k, product) \<mapsto> v)"

section \<open>Moving-domain detector\<close>

text \<open>
  The class \<open>either\<close>: called on an input it goes to the first file (the first entry of
  a dictionary, recursively) and returns the first of its names that is a variable of
  that file.
\<close>

definition either_names :: "string list \<Rightarrow> 'a source \<Rightarrow> error + string" where
  "either_names varnames wrfnc =
     (case filter (\<lambda>v. variables wrfnc v \<noteq> None) varnames of
        [] \<Rightarrow> Inl (ValueError ''not valid variable names'')
      | v # _ \<Rightarrow> Inr v)"

fun either_call :: "string list \<Rightarrow> 'a wrfin \<Rightarrow> error + string" where
  "either_call varnames (Files (Single wrfnc)) = either_names varnames wrfnc"
| "either_call varnames (Files (Seq [])) = Inl StopIteration"
| "either_call varnames (Files (Seq (wrfnc # rest))) = either_names varnames wrfnc"
| "either_call varnames (Dict []) = Inl StopIteration"
| "either_call varnames (Dict ((k, entry) # rest)) = either_call varnames entry"

text \<open>
  The argument \<open>latvar\<close> (and \<open>lonvar\<close>) of \<open>is_moving_domain\<close> is an \<open>either\<close> object, the
  default, or a name.
\<close>

datatype coordarg = Either "string list" | Name string

fun resolve_coordarg :: "coordarg \<Rightarrow> 'a wrfin \<Rightarrow> error + string" where
  "resolve_coordarg (Either varnames) wrfseq = either_call varnames wrfseq"
| "resolve_coordarg (Name v) wrfseq = Inr v"

text \<open>\<^verbatim>\<open>str.split()\<close>: the maximal runs of characters other than ASCII whitespace.\<close>

definition is_space :: "char \<Rightarrow> bool" where
  "is_space ch = (ch \<in> set [CHR '' '', CHR 0x09, CHR 0x0A, CHR 0x0B, CHR 0x0C, CHR 0x0D])"

fun split_acc :: "string \<Rightarrow> string \<Rightarrow> string list" where
  "split_acc w [] = (if w = [] then [] else [rev w])"
| "split_acc w (ch # cs) =
     (if is_space ch then (if w = [] then split_acc [] cs else rev w # split_acc [] cs)
      else split_acc (ch # w) cs)"

definition split :: "string \<Rightarrow> string list" where
  "split s = split_acc [] s"

text \<open>
  \<open>_corners_moved\<close>: for every time \<open>i\<close> (the third axis from the right) the corner
  \<^verbatim>\<open>[0, ..., i, 0, 0]\<close> and the corner \<^verbatim>\<open>[-1, ..., i, -1, -1]\<close> of the latitudes and
  longitudes of the file are compared with the reference corners; Python's \<open>or\<close> stops
  at the first difference.
\<close>

definition corner_differs ::
  "'a ndarray \<Rightarrow> 'a ndarray \<Rightarrow> 'a \<times> 'a \<Rightarrow> 'a \<times> 'a \<Rightarrow> nat \<Rightarrow> error + bool" where
  "corner_differs lats lons first_ll_corner first_ur_corner i =
     (let nd = length (shape lats);
          start_idxs = (replicate nd 0)[nd - 3 := int i];
          end_idxs = (replicate nd (- 1))[nd - 3 := int i]
      in case getitem_tuple lats start_idxs of Inl e \<Rightarrow> Inl e | Inr lat_s \<Rightarrow>
         if fst first_ll_corner \<noteq> lat_s then Inr True else
         case getitem_tuple lons start_idxs of Inl e \<Rightarrow> Inl e | Inr lon_s \<Rightarrow>
         if snd first_ll_corner \<noteq> lon_s then Inr True else
         case getitem_tuple lats end_idxs of Inl e \<Rightarrow> Inl e | Inr lat_e \<Rightarrow>
         if fst first_ur_corner \<noteq> lat_e then Inr True else
         case getitem_tuple lons end_idxs of Inl e \<Rightarrow> Inl e | Inr lon_e \<Rightarrow>
         Inr (snd first_ur_corner \<noteq> lon_e))"

fun corners_moved_loop ::
  "'a ndarray \<Rightarrow> 'a ndarray \<Rightarrow> 'a \<times> 'a \<Rightarrow> 'a \<times> 'a \<Rightarrow> nat list \<Rightarrow> error + bool" where
  "corners_moved_loop lats lons first_ll_corner first_ur_corner [] = Inr False"
| "corners_moved_loop lats lons first_ll_corner first_ur_corner (i # is) =
     (case corner_differs lats lons first_ll_corner first_ur_corner i of
        Inl e \<Rightarrow> Inl e
      | Inr True \<Rightarrow> Inr True
      | Inr False \<Rightarrow> corners_moved_loop lats lons first_ll_corner first_ur_corner is)"

definition corners_moved ::
  "'a source \<Rightarrow> 'a \<times> 'a \<Rightarrow> 'a \<times> 'a \<Rightarrow> string \<Rightarrow> string \<Rightarrow> error + bool" where
  "corners_moved wrfnc first_ll_corner first_ur_corner latvar lonvar =
     (case variables wrfnc latvar of None \<Rightarrow> Inl (KeyError latvar) | Some latv \<Rightarrow>
      case variables wrfnc lonvar of None \<Rightarrow> Inl (KeyError lonvar) | Some lonv \<Rightarrow>
      let lats = var_data latv; lons = var_data lonv; nd = length (shape lats)
      in if nd < 3 then Inl (IndexError ''tuple index out of range'')
         else corners_moved_loop lats lons first_ll_corner first_ur_corner
                [0..<shape lats ! (nd - 3)])"

text \<open>
  The names of the coordinate pair: from the \<open>coordinates\<close> attribute of the variable
  when a variable name is given and the attribute exists (longitude first), else the
  arguments.  The result is (\<open>lat_coord\<close>, \<open>lon_coord\<close>).
\<close>

definition coord_names_of ::
  "'a source \<Rightarrow> string option \<Rightarrow> string \<Rightarrow> string \<Rightarrow> error + string \<times> string" where
  "coord_names_of first_wrfnc varname latvar lonvar =
     (case varname of
        None \<Rightarrow> Inr (latvar, lonvar)
      | Some vn \<Rightarrow>
          (case variables first_wrfnc vn of
             None \<Rightarrow> Inl (KeyError vn)
           | Some var \<Rightarrow>
               (case var_attrs var ''coordinates'' of
                  None \<Rightarrow> Inr (latvar, lonvar)
                | Some attr \<Rightarrow>
                    (case split attr of
                       lon_coord # lat_coord # _ \<Rightarrow> Inr (lat_coord, lon_coord)
                     | _ \<Rightarrow> Inl (IndexError ''list index out of range'')))))"

definition moving_product :: "string \<Rightarrow> string \<Rightarrow> string" where
  "moving_product lat_coord lon_coord = ''is_moving_'' @ lat_coord @ ''_'' @ lon_coord"

text \<open>
  The reference corners: of the latitudes and longitudes of the first file, the element
  at \<^verbatim>\<open>[0, ..., 0]\<close> and the element at \<^verbatim>\<open>[0, ..., 0, -1, -1]\<close>.  The index lists are
  built from the shape of the latitudes (\<^verbatim>\<open>last_idxs[-2:] = [-1]*2\<close> replaces the last
  two entries, or all of a shorter list).
\<close>

definition reference_corners ::
  "'a source \<Rightarrow> string \<Rightarrow> string \<Rightarrow> error + ('a \<times> 'a) \<times> ('a \<times> 'a)" where
  "reference_corners first_wrfnc lat_coord lon_coord =
     (case variables first_wrfnc lat_coord of None \<Rightarrow> Inl (KeyError lat_coord) | Some latv \<Rightarrow>
      case variables first_wrfnc lon_coord of None \<Rightarrow> Inl (KeyError lon_coord) | Some lonv \<Rightarrow>
      let lats = var_data latv; lons = var_data lonv; nd = length (shape lats);
          zero_idxs = replicate nd 0;
          last_idxs = replicate (nd - 2) 0 @ [- 1, - 1]
      in case getitem_tuple lats zero_idxs of Inl e \<Rightarrow> Inl e | Inr lat0 \<Rightarrow>
         case getitem_tuple lats last_idxs of Inl e \<Rightarrow> Inl e | Inr lat1 \<Rightarrow>
         case getitem_tuple lons zero_idxs of Inl e \<Rightarrow> Inl e | Inr lon0 \<Rightarrow>
         case getitem_tuple lons last_idxs of Inl e \<Rightarrow> Inl e | Inr lon1 \<Rightarrow>
         Inr ((lat0, lon0), (lat1, lon1)))"

text \<open>The \<open>while\<close> loop of \<open>is_moving_domain\<close> over the files after the first.\<close>

fun search_files ::
  "'a source list \<Rightarrow> 'a \<times> 'a \<Rightarrow> 'a \<times> 'a \<Rightarrow> string \<Rightarrow> string \<Rightarrow> error + bool" where
  "search_files [] ll_corner ur_corner lat_coord lon_coord = Inr False"
| "search_files (wrfnc # wrf_iter) ll_corner ur_corner lat_coord lon_coord =
     (case corners_moved wrfnc ll_corner ur_corner lat_coord lon_coord of
        Inl e \<Rightarrow> Inl e
      | Inr True \<Rightarrow> Inr True
      | Inr False \<Rightarrow> search_files wrf_iter ll_corner ur_corner lat_coord lon_coord)"

text \<open>
  \<open>is_moving_domain\<close> on a sequence of files with the coordinate arguments resolved:
  the first file, the names of the coordinate pair, the cached value if there is one,
  else the search, whose outcome is cached and returned.
\<close>

definition is_moving_seq ::
  "'a source list \<Rightarrow> string option \<Rightarrow> string \<Rightarrow> string \<Rightarrow> key \<Rightarrow> 'a cache
     \<Rightarrow> error + 'a cached \<times> 'a cache" where
  "is_moving_seq wrfseq varname latvar lonvar k c =
     (case wrfseq of
        [] \<Rightarrow> Inl StopIteration
      | first_wrfnc # wrf_iter \<Rightarrow>
          (case coord_names_of first_wrfnc varname latvar lonvar of Inl e \<Rightarrow> Inl e
           | Inr (lat_coord, lon_coord) \<Rightarrow>
          (case get_cached_item c k (moving_product lat_coord lon_coord) of
             Some moving \<Rightarrow> Inr (moving, c)
           | None \<Rightarrow>
          (case reference_corners first_wrfnc lat_coord lon_coord of Inl e \<Rightarrow> Inl e
           | Inr (ll_corner, ur_corner) \<Rightarrow>
          (case search_files wrf_iter ll_corner ur_corner lat_coord lon_coord of Inl e \<Rightarrow> Inl e
           | Inr moved \<Rightarrow>
               Inr (Flag moved,
                    cache_item k (moving_product lat_coord lon_coord) (Flag moved) c))))))"

text \<open>
  \<open>is_moving_domain\<close>: a single file is wrapped in a list; of a dictionary only the
  first entry is checked, with the token of that entry.
\<close>

fun is_moving_domain ::
  "'a wrfin \<Rightarrow> string option \<Rightarrow> coordarg \<Rightarrow> coordarg \<Rightarrow> key \<Rightarrow> 'a cache
     \<Rightarrow> error + 'a cached \<times> 'a cache" where
  "is_moving_domain (Files (Single wrfnc)) varname latvar lonvar k c =
     (case resolve_coordarg latvar (Files (Single wrfnc)) of Inl e \<Rightarrow> Inl e | Inr lat \<Rightarrow>
      case resolve_coordarg lonvar (Files (Single wrfnc)) of Inl e \<Rightarrow> Inl e | Inr lon \<Rightarrow>
      is_moving_seq [wrfnc] varname lat lon k c)"
| "is_moving_domain (Files (Seq wrfseq)) varname latvar lonvar k c =
     (case resolve_coordarg latvar (Files (Seq wrfseq)) of Inl e \<Rightarrow> Inl e | Inr lat \<Rightarrow>
      case resolve_coordarg lonvar (Files (Seq wrfseq)) of Inl e \<Rightarrow> Inl e | Inr lon \<Rightarrow>
      is_moving_seq wrfseq varname lat lon k c)"
| "is_moving_domain (Dict []) varname latvar lonvar k c =
     (case resolve_coordarg latvar (Dict [] :: 'a wrfin) of Inl e \<Rightarrow> Inl e | Inr lat \<Rightarrow>
      case resolve_coordarg lonvar (Dict [] :: 'a wrfin) of Inl e \<Rightarrow> Inl e | Inr lon \<Rightarrow>
      Inl StopIteration)"
| "is_moving_domain (Dict ((dict_key, entry) # rest)) varname latvar lonvar k c =
     (case resolve_coordarg latvar (Dict ((dict_key, entry) # rest)) of Inl e \<Rightarrow> Inl e | Inr lat \<Rightarrow>
      case resolve_coordarg lonvar (Dict ((dict_key, entry) # rest)) of Inl e \<Rightarrow> Inl e | Inr lon \<Rightarrow>
      case (if k \<noteq> KNone then key_getitem k dict_key else Inr KNone) of Inl e \<Rightarrow> Inl e | Inr k' \<Rightarrow>
      is_moving_domain entry varname (Name lat) (Name lon) k' c)"

text \<open>The default arguments of \<open>is_moving_domain\<close>.\<close>

definition default_latvar :: coordarg where
  "default_latvar = Either [''XLAT'', ''XLAT_M'']"

definition default_lonvar :: coordarg where
  "default_lonvar = Either [''XLONG'', ''XLONG_M'']"

section \<open>The combiners on raw arrays\<close>

text \<open>
  The combiners are followed on their raw-array branches, the ones taken when \<open>meta\<close> is
  false (as in every caller among the sources, \<open>get_pressure\<close>, \<open>get_theta\<close>, \<dots>) or
  xarray is disabled.  The blocks under \<^verbatim>\<open>if xarray_enabled() and meta:\<close> wrap the same
  \<open>outdata\<close> with names, coordinates and attributes and are not part of the model.

  What the code takes from outside is collected in an environment: the fill value
  \<open>Constants.DEFAULT_FILL\<close> (the module \<open>constants\<close> is not among the sources), the
  content of freshly allocated memory (\<open>np.empty\<close>), whether a row of the variable
  \<open>Times\<close> parses as a date (\<open>strptime\<close> in \<open>_make_time\<close>), and the result of
  \<open>extract_times\<close> with \<open>do_xtime=True\<close>, to which \<open>_extract_var\<close> hands the variable
  \<open>XTIME\<close>.  \<open>ALL_TIMES\<close> is \<open>None\<close> (\<open>is_multi_time_req\<close> tests \<^verbatim>\<open>timeidx is None\<close>), so
  a time index is an \<open>int option\<close>.
\<close>

record 'a env =
  DEFAULT_FILL :: 'a
  uninit :: "nat \<Rightarrow> 'a"
  valid_time :: "'a list \<Rightarrow> bool"
  extract_xtime :: "'a wrfin \<Rightarrow> int option \<Rightarrow> string \<Rightarrow> error + 'a array"

definition is_multi_time_req :: "int option \<Rightarrow> bool" where
  "is_multi_time_req timeidx = (timeidx = None)"

definition is_time_coord_var :: "string \<Rightarrow> bool" where
  "is_time_coord_var varname = (varname \<in> set [''XTIME''])"

text \<open>\<^verbatim>\<open>iter(wrfseq)\<close>: a single file is not iterable.  \<open>as_list\<close> is \<^verbatim>\<open>[wrfnc]\<close> or the sequence.\<close>

fun py_iter :: "'a files \<Rightarrow> error + 'a source list" where
  "py_iter (Single wrfnc) = Inl (TypeError ''object is not iterable'')"
| "py_iter (Seq wrfseq) = Inr wrfseq"

fun as_list :: "'a files \<Rightarrow> 'a source list" where
  "as_list (Single wrfnc) = [wrfnc]"
| "as_list (Seq wrfseq) = wrfseq"

text \<open>
  The raw branch of the block that \<open>_find_forward\<close> and \<open>_find_reverse\<close> run on the
  located file: \<^verbatim>\<open>wrfnc.variables[varname][filetimeidx, :]\<close>, then a leading axis of
  length 1 (\<^verbatim>\<open>result[np.newaxis, :]\<close>, "so that nosqueeze works").
\<close>

definition read_time :: "string \<Rightarrow> 'a source \<Rightarrow> int \<Rightarrow> error + 'a ndarray" where
  "read_time varname wrfnc filetimeidx =
     (case variables wrfnc varname of
        None \<Rightarrow> Inl (KeyError varname)
      | Some var \<Rightarrow>
          (case getitem_row (var_data var) filetimeidx of
             Inl e \<Rightarrow> Inl e
           | Inr result \<Rightarrow> newaxis0 result))"

text \<open>
  \<open>extract_times\<close> as \<open>_cat_files\<close> calls it (all times, method \<open>cat\<close>, no metadata,
  \<open>do_xtime=False\<close>): the rows of the variable \<open>Times\<close> of every file, each parsed by
  \<open>_make_time\<close>; a \<open>KeyError\<close> on the way is caught and gives \<open>None\<close>.  A time is
  represented by the row it was parsed from.
\<close>

fun make_times :: "'a env \<Rightarrow> 'a list list \<Rightarrow> error + 'a list list" where
  "make_times env [] = Inr []"
| "make_times env (row # rows) =
     (if valid_time env row
      then (case make_times env rows of Inl e \<Rightarrow> Inl e | Inr ts \<Rightarrow> Inr (row # ts))
      else Inl (ValueError ''time data does not match format''))"

definition file_times :: "'a env \<Rightarrow> 'a source \<Rightarrow> error + 'a list list" where
  "file_times env wrfnc =
     (case variables wrfnc ''Times'' of
        None \<Rightarrow> Inl (KeyError ''Times'')
      | Some var \<Rightarrow>
          (case shape (var_data var) of
             n # m # rest \<Rightarrow> make_times env (chunks n (prod_list (m # rest)) (vals (var_data var)))
           | _ \<Rightarrow> Inl (IndexError ''too many indices for array'')))"

fun time_list :: "'a env \<Rightarrow> 'a source list \<Rightarrow> error + 'a list list" where
  "time_list env [] = Inr []"
| "time_list env (wrf_file # wrf_list) =
     (case file_times env wrf_file of
        Inl e \<Rightarrow> Inl e
      | Inr ts \<Rightarrow> (case time_list env wrf_list of Inl e \<Rightarrow> Inl e | Inr us \<Rightarrow> Inr (ts @ us)))"

definition extract_times :: "'a env \<Rightarrow> 'a files \<Rightarrow> error + 'a list list option" where
  "extract_times env wrfnc =
     (case time_list env (as_list wrfnc) of
        Inl (KeyError k) \<Rightarrow> Inr None
      | Inl e \<Rightarrow> Inl e
      | Inr ts \<Rightarrow> Inr (Some ts))"

text \<open>The \<open>while\<close> loop of \<open>_cat_files\<close> over the files after the first.\<close>

fun cat_loop :: "string \<Rightarrow> 'a source list \<Rightarrow> 'a ndarray \<Rightarrow> nat \<Rightarrow> error + 'a ndarray" where
  "cat_loop varname [] outdata startidx = Inr outdata"
| "cat_loop varname (wrfnc # wrf_iter) outdata startidx =
     (case variables wrfnc varname of
        None \<Rightarrow> Inl (KeyError varname)
      | Some var \<Rightarrow>
          (case shape (var_data var) of
             [] \<Rightarrow> Inl (IndexError ''tuple index out of range'')
           | numtimes # non_time \<Rightarrow>
               (case setitem_rows outdata startidx (startidx + numtimes) (var_data var) of
                  Inl e \<Rightarrow> Inl e
                | Inr outdata' \<Rightarrow> cat_loop varname wrf_iter outdata' (startidx + numtimes))))"

text \<open>
  \<open>_cat_files\<close>.  The moving-domain flag is computed when it is not given; a single time
  index goes to the time-index locator; for all times the output has as many rows as
  there are times in the files (\<open>len(file_times)\<close>) and the non-time shape of the first
  file's variable, and every file's variable is assigned to the next rows.
\<close>

definition cat_files ::
  "'a env \<Rightarrow> 'a files \<Rightarrow> string \<Rightarrow> int option \<Rightarrow> 'a cached option \<Rightarrow> key \<Rightarrow> 'a cache
     \<Rightarrow> error + 'a array \<times> 'a cache" where
  "cat_files env wrfseq varname timeidx is_moving k c =
     (case (case is_moving of
              None \<Rightarrow> is_moving_domain (Files wrfseq) (Some varname) default_latvar default_lonvar k c
            | Some m \<Rightarrow> Inr (m, c)) of
        Inl e \<Rightarrow> Inl e
      | Inr (is_moving', c') \<Rightarrow>
     (case extract_times env wrfseq of
        Inl e \<Rightarrow> Inl e
      | Inr ftimes \<Rightarrow>
     (case timeidx of
        Some t \<Rightarrow>
          (case py_iter wrfseq of
             Inl e \<Rightarrow> Inl e
           | Inr ws \<Rightarrow>
               (case find_arr_for_time (read_time varname) ws t of
                  Inl e \<Rightarrow> Inl e
                | Inr result \<Rightarrow> Inr (NDArray result, c')))
      | None \<Rightarrow>
          (case py_iter wrfseq of
             Inl e \<Rightarrow> Inl e
           | Inr [] \<Rightarrow> Inl StopIteration
           | Inr (first_wrfnc # wrf_iter) \<Rightarrow>
               (case variables first_wrfnc varname of
                  None \<Rightarrow> Inl (KeyError varname)
                | Some var \<Rightarrow>
                    (case ftimes of
                       None \<Rightarrow> Inl (TypeError ''object of type NoneType has no len()'')
                     | Some ts \<Rightarrow>
                         (let first_var = var_data var;
                              outdims = length ts # tl (shape first_var);
                              outdata = np_empty (uninit env) outdims
                          in case shape first_var of
                               [] \<Rightarrow> Inl (IndexError ''tuple index out of range'')
                             | numtimes # non_time \<Rightarrow>
                                 (case setitem_rows outdata 0 numtimes first_var of
                                    Inl e \<Rightarrow> Inl e
                                  | Inr outdata' \<Rightarrow>
                                      (case cat_loop varname wrf_iter outdata' numtimes of
                                         Inl e \<Rightarrow> Inl e
                                       | Inr out \<Rightarrow> Inr (NDArray out, c'))))))))))"

text \<open>\<open>_get_numfiles\<close> and \<open>_find_max_time_size\<close>.\<close>

definition get_numfiles :: "'a files \<Rightarrow> error + nat" where
  "get_numfiles wrfseq = (case py_iter wrfseq of Inl e \<Rightarrow> Inl e | Inr ws \<Rightarrow> Inr (length ws))"

fun max_time_loop :: "'a source list \<Rightarrow> nat \<Rightarrow> error + nat" where
  "max_time_loop [] max_times = Inr max_times"
| "max_time_loop (wrfnc # wrf_iter) max_times =
     (case extract_dim wrfnc ''Time'' of
        Inl e \<Rightarrow> Inl e
      | Inr t \<Rightarrow> max_time_loop wrf_iter (if t \<ge> max_times then t else max_times))"

definition find_max_time_size :: "'a files \<Rightarrow> error + nat" where
  "find_max_time_size wrfseq =
     (case py_iter wrfseq of Inl e \<Rightarrow> Inl e | Inr ws \<Rightarrow> max_time_loop ws 0)"

text \<open>
  The \<open>while\<close> loop of \<open>_join_files\<close> over the files after the first; the state is the
  output, the file index and the flag \<open>file_times_less_than_max\<close>.
\<close>

fun join_loop ::
  "string \<Rightarrow> bool \<Rightarrow> nat \<Rightarrow> 'a source list \<Rightarrow> 'a ndarray \<Rightarrow> nat \<Rightarrow> bool
     \<Rightarrow> error + 'a ndarray \<times> bool" where
  "join_loop varname multitime maxtimes [] outdata file_idx less_than_max =
     Inr (outdata, less_than_max)"
| "join_loop varname multitime maxtimes (wrfnc # wrf_iter) outdata file_idx less_than_max =
     (case extract_dim wrfnc ''Time'' of
        Inl e \<Rightarrow> Inl e
      | Inr numtimes \<Rightarrow>
     (case variables wrfnc varname of
        None \<Rightarrow> Inl (KeyError varname)
      | Some var \<Rightarrow>
     (case (if \<not> multitime then newaxis0 (var_data var) else Inr (var_data var)) of
        Inl e \<Rightarrow> Inl e
      | Inr outvar \<Rightarrow>
     (case setitem_file_rows outdata file_idx numtimes outvar of
        Inl e \<Rightarrow> Inl e
      | Inr outdata' \<Rightarrow>
          join_loop varname multitime maxtimes wrf_iter outdata' (file_idx + 1)
            (less_than_max \<or> numtimes < maxtimes)))))"

text \<open>
  The single-time slice at the end of \<open>_join_files\<close>:
  \<^verbatim>\<open>outdata[:, timeidx, :]\<close> and \<^verbatim>\<open>outdata[:, np.newaxis, :]\<close>, on a plain or masked array.
\<close>

fun slice_time :: "'a array \<Rightarrow> int \<Rightarrow> error + 'a array" where
  "slice_time (NDArray a) timeidx =
     (case getitem_axis1 a timeidx of
        Inl e \<Rightarrow> Inl e
      | Inr b \<Rightarrow> (case newaxis1 b of Inl e \<Rightarrow> Inl e | Inr r \<Rightarrow> Inr (NDArray r)))"
| "slice_time (MaskedArray a m f) timeidx =
     (case getitem_axis1 a timeidx of
        Inl e \<Rightarrow> Inl e
      | Inr b \<Rightarrow>
          (case newaxis1 b of
             Inl e \<Rightarrow> Inl e
           | Inr r \<Rightarrow>
               Inr (MaskedArray r
                      (take_axis1 (shape a) (nat (if timeidx < 0 then timeidx + int (shape a ! 1) else timeidx)) m)
                      f)))"

text \<open>
  \<open>_join_files\<close>.  The output has the shape [number of files, largest time extent] +
  the non-time shape of the first file's variable and starts filled with the fill
  value; file \<open>i\<close> is assigned to \<^verbatim>\<open>outdata[i, 0:numtimes, :]\<close>.  When a file has fewer
  times than the largest extent the output becomes a masked array.  A single time index
  is sliced out at the end.
\<close>

definition join_files ::
  "'a env \<Rightarrow> 'a files \<Rightarrow> string \<Rightarrow> int option \<Rightarrow> 'a cached option \<Rightarrow> key \<Rightarrow> 'a cache
     \<Rightarrow> error + 'a array \<times> 'a cache" where
  "join_files env wrfseq varname timeidx is_moving k c =
     (case (case is_moving of
              None \<Rightarrow> is_moving_domain (Files wrfseq) (Some varname) default_latvar default_lonvar k c
            | Some m \<Rightarrow> Inr (m, c)) of
        Inl e \<Rightarrow> Inl e
      | Inr (is_moving', c') \<Rightarrow>
     (case get_numfiles wrfseq of Inl e \<Rightarrow> Inl e | Inr numfiles \<Rightarrow>
     (case find_max_time_size wrfseq of Inl e \<Rightarrow> Inl e | Inr maxtimes \<Rightarrow>
     (case py_iter wrfseq of
        Inl e \<Rightarrow> Inl e
      | Inr [] \<Rightarrow> Inl StopIteration
      | Inr (wrfnc # wrf_iter) \<Rightarrow>
     (case extract_dim wrfnc ''Time'' of Inl e \<Rightarrow> Inl e | Inr numtimes \<Rightarrow>
     (case variables wrfnc varname of
        None \<Rightarrow> Inl (KeyError varname)
      | Some var \<Rightarrow>
          (let first_var = var_data var;
               outdims = numfiles # maxtimes # tl (shape first_var);
               outdata = np_full outdims (DEFAULT_FILL env)
           in case setitem_file_rows outdata 0 numtimes first_var of
                Inl e \<Rightarrow> Inl e
              | Inr outdata' \<Rightarrow>
                  (case join_loop varname (is_multi_time_req timeidx) maxtimes wrf_iter outdata' 1
                          (numtimes < maxtimes) of
                     Inl e \<Rightarrow> Inl e
                   | Inr (out, less_than_max) \<Rightarrow>
                       (let outarr = (if less_than_max then masked_values out (DEFAULT_FILL env)
                                      else NDArray out)
                        in case timeidx of
                             None \<Rightarrow> Inr (outarr, c')
                           | Some t \<Rightarrow>
                               (case slice_time outarr t of
                                  Inl e \<Rightarrow> Inl e
                                | Inr r \<Rightarrow> Inr (r, c')))))))))))"

section \<open>Dictionary combiner and the extraction facade\<close>

text \<open>\<^verbatim>\<open>method.lower()\<close> on ASCII letters.\<close>

definition lower_char :: "char \<Rightarrow> char" where
  "lower_char ch =
     (let n = (of_char ch :: nat) in if 65 \<le> n \<and> n \<le> 90 then char_of (n + 32) else ch)"

definition lower :: "string \<Rightarrow> string" where
  "lower s = map lower_char s"

text \<open>
  \<open>get_iterable\<close> returns a single file, a list, a tuple and a dictionary as they are.
  Generators and custom iterable classes, which it wraps in \<open>IterWrapper\<close>, are outside
  the input type of the model.
\<close>

definition get_iterable :: "'a wrfin \<Rightarrow> 'a wrfin" where
  "get_iterable wrfseq = wrfseq"

text \<open>
  \<open>combine_files\<close>, \<open>_combine_dict\<close> (with its \<open>while\<close> loop over the keys after the
  first) and \<open>_extract_var\<close> call each other through nested dictionaries.  The argument
  \<open>varcache\<close> of \<open>extract_var\<close> is the dictionary \<open>cache\<close> of already extracted
  variables; \<open>_combine_dict\<close> passes \<open>None\<close> for it and the token \<^verbatim>\<open>_key[key]\<close> of the
  entry.
\<close>

fun wrfin_size :: "'a wrfin \<Rightarrow> nat" where
  "wrfin_size (Files f) = 0"
| "wrfin_size (Dict d) = Suc (sum_list (map (\<lambda>p. Suc (wrfin_size (snd p))) d))"

function (sequential)
  combine_files ::
    "'a env \<Rightarrow> 'a wrfin \<Rightarrow> string \<Rightarrow> int option \<Rightarrow> 'a cached option \<Rightarrow> string \<Rightarrow> bool \<Rightarrow> key
       \<Rightarrow> 'a cache \<Rightarrow> error + 'a array \<times> 'a cache"
and combine_dict ::
    "'a env \<Rightarrow> (string \<times> 'a wrfin) list \<Rightarrow> string \<Rightarrow> int option \<Rightarrow> string \<Rightarrow> key
       \<Rightarrow> 'a cache \<Rightarrow> error + 'a array \<times> 'a cache"
and combine_dict_loop ::
    "'a env \<Rightarrow> (string \<times> 'a wrfin) list \<Rightarrow> string \<Rightarrow> int option \<Rightarrow> 'a cached \<Rightarrow> string \<Rightarrow> key
       \<Rightarrow> 'a ndarray \<Rightarrow> nat \<Rightarrow> 'a cache \<Rightarrow> error + 'a ndarray \<times> 'a cache"
and extract_var ::
    "'a env \<Rightarrow> 'a wrfin \<Rightarrow> string \<Rightarrow> int option \<Rightarrow> 'a cached option \<Rightarrow> string \<Rightarrow> bool
       \<Rightarrow> (string \<rightharpoonup> 'a array) option \<Rightarrow> key \<Rightarrow> 'a cache \<Rightarrow> error + 'a array \<times> 'a cache"
where
  "combine_files env wrfseq varname timeidx is_moving method squeeze_req k c =
     (case (case get_iterable wrfseq of
              Dict wrfdict \<Rightarrow> combine_dict env wrfdict varname timeidx method k c
            | Files fs \<Rightarrow>
                if lower method = ''cat'' then cat_files env fs varname timeidx is_moving k c
                else if lower method = ''join'' then join_files env fs varname timeidx is_moving k c
                else Inl (ValueError ''method must be cat or join'')) of
        Inl e \<Rightarrow> Inl e
      | Inr (outarr, c') \<Rightarrow> Inr (if squeeze_req then squeeze outarr else outarr, c'))"
| "combine_dict env [] varname timeidx method k c = Inl StopIteration"
| "combine_dict env ((first_key, first_entry) # key_iter) varname timeidx method k c =
     (case is_moving_domain (Dict ((first_key, first_entry) # key_iter)) (Some varname)
             default_latvar default_lonvar k c of
        Inl e \<Rightarrow> Inl e
      | Inr (is_moving, c1) \<Rightarrow>
     (case key_getitem k first_key of Inl e \<Rightarrow> Inl e | Inr k1 \<Rightarrow>
     (case extract_var env first_entry varname timeidx (Some is_moving) method False None k1 c1 of
        Inl e \<Rightarrow> Inl e
      | Inr (first_array, c2) \<Rightarrow>
          (let outdims = Suc (length key_iter) # shape (data_of first_array);
               outdata = np_empty (uninit env) outdims
           in case setitem_row outdata 0 (data_of first_array) of
                Inl e \<Rightarrow> Inl e
              | Inr outdata' \<Rightarrow>
                  (case combine_dict_loop env key_iter varname timeidx is_moving method k
                          outdata' 1 c2 of
                     Inl e \<Rightarrow> Inl e
                   | Inr (out, c3) \<Rightarrow> Inr (NDArray out, c3))))))"
| "combine_dict_loop env [] varname timeidx is_moving method k outdata idx c = Inr (outdata, c)"
| "combine_dict_loop env ((key, entry) # key_iter) varname timeidx is_moving method k outdata idx c =
     (case key_getitem k key of Inl e \<Rightarrow> Inl e | Inr k1 \<Rightarrow>
     (case extract_var env entry varname timeidx (Some is_moving) method False None k1 c of
        Inl e \<Rightarrow> Inl e
      | Inr (vardata, c1) \<Rightarrow>
          if tl (shape outdata) \<noteq> shape (data_of vardata)
          then Inl (ValueError ''data sequences must have the same size for all dictionary keys'')
          else (case setitem_row outdata idx (data_of vardata) of
                  Inl e \<Rightarrow> Inl e
                | Inr outdata' \<Rightarrow>
                    combine_dict_loop env key_iter varname timeidx is_moving method k
                      outdata' (idx + 1) c1)))"
| "extract_var env wrfnc varname timeidx is_moving method squeeze_req varcache k c =
     (case (case varcache of None \<Rightarrow> None | Some vc \<Rightarrow> vc varname) of
        Some cache_var \<Rightarrow> Inr (cache_var, c)
      | None \<Rightarrow>
          if is_time_coord_var varname
          then (case extract_xtime env wrfnc timeidx method of
                  Inl e \<Rightarrow> Inl e
                | Inr r \<Rightarrow> Inr (r, c))
          else
            (case wrfnc of
               Files (Single file) \<Rightarrow>
                 (case (case timeidx of
                          Some t \<Rightarrow> read_time varname file t
                        | None \<Rightarrow>
                            (case variables file varname of
                               None \<Rightarrow> Inl (KeyError varname)
                             | Some var \<Rightarrow> Inr (var_data var))) of
                    Inl e \<Rightarrow> Inl e
                  | Inr result \<Rightarrow>
                      Inr (if squeeze_req then squeeze (NDArray result) else NDArray result, c))
             | _ \<Rightarrow> combine_files env wrfnc varname timeidx is_moving method squeeze_req k c))"
  by pat_completeness auto
termination
  by (relation "measure (\<lambda>x. case x of
         Inl (Inl (env, w, r)) \<Rightarrow> 3 * wrfin_size w + 1
       | Inl (Inr (env, d, r)) \<Rightarrow> 3 * sum_list (map (\<lambda>p. Suc (wrfin_size (snd p))) d) + 3
       | Inr (Inl (env, d, r)) \<Rightarrow> 3 * sum_list (map (\<lambda>p. Suc (wrfin_size (snd p))) d) + 3
       | Inr (Inr (env, w, r)) \<Rightarrow> 3 * wrfin_size w + 2)")
     (auto simp: get_iterable_def)

section \<open>Example files\<close>

text \<open>Three files of 3, 2 and 4 times, used to run the definitions on concrete inputs.\<close>

definition ex_file :: "nat \<Rightarrow> nat source" where
  "ex_file n = \<lparr>variables = Map.empty, dimensions = [''Time'' \<mapsto> DimObj n]\<rparr>"

definition ex_files :: "nat source list" where
  "ex_files = [ex_file 3, ex_file 2, ex_file 4]"

section \<open>Corner points and example grids\<close>

text \<open>A variable with the given shape and elements, no dimension names and no attributes.\<close>

definition mk_var :: "nat list \<Rightarrow> 'a list \<Rightarrow> 'a variable" where
  "mk_var s xs = \<lparr>var_data = \<lparr>shape = s, vals = xs\<rparr>, var_dimensions = [], var_attrs = Map.empty\<rparr>"

text \<open>
  The corner points of the time slice \<open>i\<close> of a latitude and a longitude array whose
  first axis is time: the lower-left corner \<^verbatim>\<open>[i, 0, 0]\<close> and the upper-right corner
  \<^verbatim>\<open>[i, -1, -1]\<close>, each as (latitude, longitude).
\<close>

definition slice_corners :: "'a ndarray \<Rightarrow> 'a ndarray \<Rightarrow> nat \<Rightarrow> ('a \<times> 'a) \<times> ('a \<times> 'a)" where
  "slice_corners lats lons i =
     (let b = prod_list (tl (shape lats))
      in ((vals lats ! (i * b), vals lons ! (i * b)),
          (vals lats ! (i * b + b - 1), vals lons ! (i * b + b - 1))))"

text \<open>
  Files with \<open>XLAT\<close> and \<open>XLONG\<close> on a 2 x 2 grid: one whose single time slice has the
  corners (10, 30) and (20, 40), one with a second time slice whose corners differ from
  the first, and one whose single time slice has other corners.
\<close>

definition grid_file :: "nat \<Rightarrow> int list \<Rightarrow> int list \<Rightarrow> int source" where
  "grid_file t lats lons =
     \<lparr>variables = [''XLAT'' \<mapsto> mk_var [t, 2, 2] lats, ''XLONG'' \<mapsto> mk_var [t, 2, 2] lons],
      dimensions = [''Time'' \<mapsto> DimObj t]\<rparr>"

definition static_file :: "int source" where
  "static_file = grid_file 1 [10, 10, 20, 20] [30, 40, 30, 40]"

definition drifting_file :: "int source" where
  "drifting_file = grid_file 2 [10, 10, 20, 20, 11, 11, 21, 21] [30, 40, 30, 40, 31, 41, 31, 41]"

definition shifted_file :: "int source" where
  "shifted_file = grid_file 1 [12, 12, 22, 22] [30, 40, 30, 40]"

text \<open>
  The corner points of every time slice of a file, and the statement that the files of
  a sequence share identical corner values: all time slices of all files have the same
  corner points.
\<close>

definition all_slice_corners :: "'a source \<Rightarrow> string \<Rightarrow> string \<Rightarrow> (('a \<times> 'a) \<times> ('a \<times> 'a)) list" where
  "all_slice_corners w lat lon =
     (case (variables w lat, variables w lon) of
        (Some latv, Some lonv) \<Rightarrow>
          map (slice_corners (var_data latv) (var_data lonv)) [0..<hd (shape (var_data latv))]
      | _ \<Rightarrow> [])"

definition share_identical_corners :: "'a source list \<Rightarrow> string \<Rightarrow> string \<Rightarrow> bool" where
  "share_identical_corners ws lat lon =
     (let cs = concat (map (\<lambda>w. all_slice_corners w lat lon) ws)
      in list_all (\<lambda>c. c = hd cs) cs)"

text \<open>A cache in which the token 1 already holds the flag \<open>True\<close> for the pair XLAT, XLONG.\<close>

definition moving_cache :: "int cache" where
  "moving_cache = cache_item (KId 1) ''is_moving_XLAT_XLONG'' (Flag True) Map.empty"

section \<open>Example data files\<close>

text \<open>
  An environment with the fill value -999, zeroed fresh memory, every row of \<open>Times\<close> a
  valid date and no \<open>XTIME\<close>; and files with a variable \<open>T\<close> of shape (n, 1, 2), a
  variable \<open>Times\<close> of n rows and the dimension \<open>Time\<close> of size n.
\<close>

definition ex_env :: "int env" where
  "ex_env = \<lparr>DEFAULT_FILL = - 999, uninit = (\<lambda>k. 0), valid_time = (\<lambda>row. True),
             extract_xtime = (\<lambda>w t m. Inl (KeyError ''XTIME''))\<rparr>"



section \<open>Example dictionaries\<close>

text \<open>
  Files with a variable \<open>T\<close> of the given shape and the coordinates of a static 2 x 2
  grid; a dictionary with the keys \<open>a\<close> and \<open>b\<close> whose files hold arrays of shape (5, 5),
  one whose second file holds an array of shape (5, 4), and the token of the
  dictionaries.
\<close>

definition dict_file :: "nat list \<Rightarrow> int list \<Rightarrow> int source" where
  "dict_file s xs =
     \<lparr>variables = [''XLAT'' \<mapsto> mk_var [1, 2, 2] [10, 10, 20, 20],
                   ''XLONG'' \<mapsto> mk_var [1, 2, 2] [30, 40, 30, 40],
                   ''T'' \<mapsto> mk_var s xs],
      dimensions = [''Time'' \<mapsto> DimObj (hd s)]\<rparr>"

definition array_x :: "int list" where
  "array_x = map int [0..<25]"

definition array_y :: "int list" where
  "array_y = map (\<lambda>i. 100 + int i) [0..<25]"

definition ex_dict :: "(string \<times> int wrfin) list" where
  "ex_dict = [(''a'', Files (Single (dict_file [5, 5] array_x))),
              (''b'', Files (Single (dict_file [5, 5] array_y)))]"

definition ex_dict_bad :: "(string \<times> int wrfin) list" where
  "ex_dict_bad = [(''a'', Files (Single (dict_file [5, 5] array_x))),
                  (''b'', Files (Single (dict_file [5, 4] (map int [0..<20]))))]"

definition ex_key :: key where
  "ex_key = KMap [(''a'', KId 1), (''b'', KId 2)]"

definition ex_dict_cache :: "int cache" where
  "ex_dict_cache = cache_item (KId 1) ''is_moving_XLAT_XLONG'' (Flag False) Map.empty"

section \<open>Results of the entries of a dictionary\<close>

text \<open>
  What the entries of a dictionary combine to: the results of \<open>_extract_var\<close> on the
  entries in key order, as \<open>_combine_dict\<close> calls it (the token of the key, the moving
  flag of the dictionary, no variable cache, \<open>squeeze=False\<close>), the cache passing from
  one entry to the next.
\<close>

fun entry_results ::
  "'a env \<Rightarrow> (string \<times> 'a wrfin) list \<Rightarrow> string \<Rightarrow> int option \<Rightarrow> 'a cached \<Rightarrow> string \<Rightarrow> key
     \<Rightarrow> 'a cache \<Rightarrow> error + 'a array list \<times> 'a cache" where
  "entry_results env [] varname timeidx is_moving method k c = Inr ([], c)"
| "entry_results env ((key, entry) # rest) varname timeidx is_moving method k c =
     (case key_getitem k key of Inl e \<Rightarrow> Inl e | Inr k1 \<Rightarrow>
     (case extract_var env entry varname timeidx (Some is_moving) method False None k1 c of
        Inl e \<Rightarrow> Inl e
      | Inr (r, c1) \<Rightarrow>
          (case entry_results env rest varname timeidx is_moving method k c1 of
             Inl e \<Rightarrow> Inl e
           | Inr (rs, c2) \<Rightarrow> Inr (r # rs, c2))))"

section \<open>Inputs of a join\<close>


definition join_input :: "string \<Rightarrow> nat list \<Rightarrow> 'a source \<Rightarrow> nat \<Rightarrow> bool" where
  "join_input varname non_time w n =
     (extract_dim w ''Time'' = Inr n \<and>
      (case variables w varname of
         None \<Rightarrow> False
       | Some var \<Rightarrow>
           shape (var_data var) = n # non_time \<and>
           length (vals (var_data var)) = n * prod_list non_time))"




section \<open>Example files for a concatenation\<close>


section \<open>Example nested dictionary\<close>

text \<open>
  A dictionary whose two entries are dictionaries of one file each, and its token: the
  file under \<open>a\<close>, \<open>x\<close> has the token 1 and the file under \<open>b\<close>, \<open>y\<close> the token 2.
\<close>

definition nested_dict :: "int wrfin" where
  "nested_dict =
     Dict [(''a'', Dict [(''x'', Files (Single (dict_file [1, 2] [1, 2])))]),
           (''b'', Dict [(''y'', Files (Single (dict_file [1, 2] [3, 4])))])]"

definition nested_key :: key where
  "nested_key = KMap [(''a'', KMap [(''x'', KId 1)]), (''b'', KMap [(''y'', KId 2)])]"

section \<open>Properties of the time-index locator\<close>

lemma has_extents_Cons:
  "has_extents (w # ws) ns \<longleftrightarrow> (\<exists>n ns'. ns = n # ns' \<and> extract_dim w ''Time'' = Inr n \<and> has_extents ws ns')"
  by (cases ns) (auto simp: has_extents_def)

lemma has_extents_length: "has_extents ws ns \<Longrightarrow> length ws = length ns"
  unfolding has_extents_def by (metis length_map)

lemma has_extents_nth:
  "has_extents ws ns \<Longrightarrow> i < length ns \<Longrightarrow> extract_dim (ws ! i) ''Time'' = Inr (ns ! i)"
  unfolding has_extents_def by (metis length_map nth_map)

lemma has_extents_rev: "has_extents ws ns \<Longrightarrow> has_extents (rev ws) (rev ns)"
  unfolding has_extents_def by (simp add: rev_map[symmetric])

lemma find_forward_loop_hit:
  "has_extents ws ns \<Longrightarrow> c \<le> t \<Longrightarrow> t < c + int (sum_list ns) \<Longrightarrow>
   \<exists>i<length ns. c + int (sum_list (take i ns)) \<le> t \<and> t < c + int (sum_list (take (Suc i) ns)) \<and>
      find_forward_loop found t c ws = found (ws ! i) (t - (c + int (sum_list (take i ns))))"
proof (induction ws arbitrary: ns c)
  case Nil
  then show ?case by (simp add: has_extents_def)
next
  case (Cons w ws)
  from Cons.prems(1) obtain n ns' where ns: "ns = n # ns'"
    and d: "extract_dim w ''Time'' = Inr n" and e: "has_extents ws ns'"
    by (auto simp: has_extents_Cons)
  show ?case
  proof (cases "t < c + int n")
    case True
    with d ns Cons.prems(2) show ?thesis
      by (intro exI[of _ 0]) simp
  next
    case False
    with Cons.prems ns have "c + int n \<le> t" "t < (c + int n) + int (sum_list ns')" by auto
    from Cons.IH[OF e this] obtain i where i: "i < length ns'"
      "c + int n + int (sum_list (take i ns')) \<le> t"
      "t < c + int n + int (sum_list (take (Suc i) ns'))"
      "find_forward_loop found t (c + int n) ws = found (ws ! i) (t - (c + int n + int (sum_list (take i ns'))))"
      by blast
    with False d ns show ?thesis
      by (intro exI[of _ "Suc i"]) (simp add: algebra_simps)
  qed
qed

lemma find_forward_loop_miss:
  "has_extents ws ns \<Longrightarrow> c + int (sum_list ns) \<le> t \<Longrightarrow>
   find_forward_loop found t c ws = Inl (TimeIdxOutOfBounds t)"
proof (induction ws arbitrary: ns c)
  case Nil
  then show ?case by simp
next
  case (Cons w ws)
  from Cons.prems(1) obtain n ns' where ns: "ns = n # ns'"
    and d: "extract_dim w ''Time'' = Inr n" and e: "has_extents ws ns'"
    by (auto simp: has_extents_Cons)
  from Cons.prems(2) ns have "c + int n + int (sum_list ns') \<le> t" by simp
  from Cons.IH[OF e this] d Cons.prems(2) ns show ?case by simp
qed

lemma find_reverse_loop_hit:
  "has_extents ws ns \<Longrightarrow> c \<le> r \<Longrightarrow> r < c + int (sum_list ns) \<Longrightarrow>
   \<exists>i<length ns. c + int (sum_list (take i ns)) \<le> r \<and> r < c + int (sum_list (take (Suc i) ns)) \<and>
      find_reverse_loop found t r c ws =
        found (ws ! i) (int (ns ! i) - (r - (c + int (sum_list (take i ns)))) - 1)"
proof (induction ws arbitrary: ns c)
  case Nil
  then show ?case by (simp add: has_extents_def)
next
  case (Cons w ws)
  from Cons.prems(1) obtain n ns' where ns: "ns = n # ns'"
    and d: "extract_dim w ''Time'' = Inr n" and e: "has_extents ws ns'"
    by (auto simp: has_extents_Cons)
  show ?case
  proof (cases "r < c + int n")
    case True
    with d ns Cons.prems(2) show ?thesis
      by (intro exI[of _ 0]) simp
  next
    case False
    with Cons.prems ns have "c + int n \<le> r" "r < (c + int n) + int (sum_list ns')" by auto
    from Cons.IH[OF e this] obtain i where i: "i < length ns'"
      "c + int n + int (sum_list (take i ns')) \<le> r"
      "r < c + int n + int (sum_list (take (Suc i) ns'))"
      "find_reverse_loop found t r (c + int n) ws =
         found (ws ! i) (int (ns' ! i) - (r - (c + int n + int (sum_list (take i ns')))) - 1)"
      by blast
    with False d ns show ?thesis
      by (intro exI[of _ "Suc i"]) (simp add: algebra_simps)
  qed
qed

lemma find_reverse_loop_miss:
  "has_extents ws ns \<Longrightarrow> c + int (sum_list ns) \<le> r \<Longrightarrow>
   find_reverse_loop found t r c ws = Inl (TimeIdxOutOfBounds t)"
proof (induction ws arbitrary: ns c)
  case Nil
  then show ?case by simp
next
  case (Cons w ws)
  from Cons.prems(1) obtain n ns' where ns: "ns = n # ns'"
    and d: "extract_dim w ''Time'' = Inr n" and e: "has_extents ws ns'"
    by (auto simp: has_extents_Cons)
  from Cons.prems(2) ns have "c + int n + int (sum_list ns') \<le> r" by simp
  from Cons.IH[OF e this] d Cons.prems(2) ns show ?case by simp
qed

lemma sum_list_take_rev:
  "j < length ns \<Longrightarrow> sum_list (take j (rev ns)) = sum_list (drop (Suc (length ns - 1 - j)) (ns::nat list))"
proof -
  assume j: "j < length ns"
  have "take j (rev ns) = rev (drop (length ns - j) ns)" by (simp add: take_rev)
  moreover from j have "Suc (length ns - 1 - j) = length ns - j" by simp
  ultimately show ?thesis by simp
qed

text \<open>
  Claim C1.  Let the files of an ordered collection have the time extents \<open>ns\<close>, of
  total \<open>N\<close>.  For a global index \<open>0 \<le> t < N\<close> the forward walk selects the file
  \<open>i\<close> whose cumulative range \<open>[n\<^sub>0 + \<dots> + n\<^bsub>i-1\<^esub>, n\<^sub>0 + \<dots> + n\<^sub>i)\<close> contains \<open>t\<close>
  (the first one, the cumulative sums being monotone) and works on it with the local
  index \<open>t\<close> minus the running offset.  For \<open>-N \<le> t < 0\<close> the reverse walk uses the
  reversed target \<open>r = -t - 1\<close>, selects the file \<open>i\<close> whose reversed cumulative range
  (the running offset being the extents of the files after \<open>i\<close>) contains \<open>r\<close>, and
  works on it with the local index \<open>extent - (r - running offset) - 1\<close>.  For the extents
  \<open>[3, 2, 4]\<close>, index 4 gives file 1 with local index 1 and index -1 gives file 2 with
  local index 3.
\<close>

theorem time_index_locator:
  assumes "has_extents wrfseq ns"
  shows "(0 \<le> t \<and> t < int (sum_list ns) \<longrightarrow>
            (\<exists>i<length ns. int (sum_list (take i ns)) \<le> t \<and> t < int (sum_list (take (Suc i) ns)) \<and>
               find_forward found wrfseq t = found (wrfseq ! i) (t - int (sum_list (take i ns))))) \<and>
         (- int (sum_list ns) \<le> t \<and> t < 0 \<longrightarrow>
            (\<exists>i<length ns. int (sum_list (drop (Suc i) ns)) \<le> - t - 1 \<and>
               - t - 1 < int (sum_list (drop (Suc i) ns)) + int (ns ! i) \<and>
               find_reverse found wrfseq t =
                 found (wrfseq ! i) (int (ns ! i) - ((- t - 1) - int (sum_list (drop (Suc i) ns))) - 1))) \<and>
         (ns = [3, 2, 4] \<longrightarrow>
            find_arr_for_time found wrfseq 4 = found (wrfseq ! 1) 1 \<and>
            find_arr_for_time found wrfseq (- 1) = found (wrfseq ! 2) 3)"
proof (intro conjI impI)
  assume "0 \<le> t \<and> t < int (sum_list ns)"
  then have "0 \<le> t" "t < 0 + int (sum_list ns)" by simp_all
  from find_forward_loop_hit[OF assms this, of found]
  show "\<exists>i<length ns. int (sum_list (take i ns)) \<le> t \<and> t < int (sum_list (take (Suc i) ns)) \<and>
          find_forward found wrfseq t = found (wrfseq ! i) (t - int (sum_list (take i ns)))"
    by (simp add: find_forward_def)
next
  assume a: "- int (sum_list ns) \<le> t \<and> t < 0"
  let ?r = "- t - 1"
  have len: "length wrfseq = length ns" using assms by (rule has_extents_length)
  from a have "0 \<le> ?r" "?r < 0 + int (sum_list (rev ns))" by simp_all
  from find_reverse_loop_hit[OF has_extents_rev[OF assms] this, of found t]
  obtain j where j: "j < length ns"
    and lo: "int (sum_list (take j (rev ns))) \<le> ?r"
    and hi: "?r < int (sum_list (take (Suc j) (rev ns)))"
    and res: "find_reverse_loop found t ?r 0 (rev wrfseq) =
        found (rev wrfseq ! j) (int (rev ns ! j) - (?r - (0 + int (sum_list (take j (rev ns))))) - 1)"
    by auto
  let ?i = "length ns - 1 - j"
  from j have i: "?i < length ns" by simp
  from j have nth_ns: "rev ns ! j = ns ! ?i" by (simp add: rev_nth)
  from j len have nth_ws: "rev wrfseq ! j = wrfseq ! ?i" by (simp add: rev_nth)
  have off: "sum_list (take j (rev ns)) = sum_list (drop (Suc ?i) ns)"
    using j by (rule sum_list_take_rev)
  from j have "take (Suc j) (rev ns) = take j (rev ns) @ [rev ns ! j]"
    by (simp add: take_Suc_conv_app_nth)
  then have up: "sum_list (take (Suc j) (rev ns)) = sum_list (drop (Suc ?i) ns) + ns ! ?i"
    using off nth_ns by simp
  show "\<exists>i<length ns. int (sum_list (drop (Suc i) ns)) \<le> - t - 1 \<and>
          - t - 1 < int (sum_list (drop (Suc i) ns)) + int (ns ! i) \<and>
          find_reverse found wrfseq t =
            found (wrfseq ! i) (int (ns ! i) - ((- t - 1) - int (sum_list (drop (Suc i) ns))) - 1)"
  proof (intro exI[of _ ?i] conjI)
    show "?i < length ns" by (rule i)
    show "int (sum_list (drop (Suc ?i) ns)) \<le> - t - 1" using lo off by simp
    show "- t - 1 < int (sum_list (drop (Suc ?i) ns)) + int (ns ! ?i)" using hi up by simp
    show "find_reverse found wrfseq t =
            found (wrfseq ! ?i) (int (ns ! ?i) - ((- t - 1) - int (sum_list (drop (Suc ?i) ns))) - 1)"
      using res off nth_ns nth_ws by (simp add: find_reverse_def)
  qed
next
  assume ns: "ns = [3, 2, 4]"
  from assms ns obtain a b c where ws: "wrfseq = [a, b, c]"
    and d: "extract_dim a ''Time'' = Inr 3" "extract_dim b ''Time'' = Inr 2"
           "extract_dim c ''Time'' = Inr 4"
    by (auto simp: has_extents_def map_eq_Cons_conv)
  show "find_arr_for_time found wrfseq 4 = found (wrfseq ! 1) 1"
    using ws d by (simp add: find_arr_for_time_def find_forward_def)
  show "find_arr_for_time found wrfseq (- 1) = found (wrfseq ! 2) 3"
    using ws d by (simp add: find_arr_for_time_def find_reverse_def)
qed

theorem time_index_locator_witness:
  "has_extents ex_files [3, 2, 4] \<and>
   find_forward (\<lambda>w i. Inr (w, i)) ex_files 4 = Inr (ex_file 2, 1) \<and>
   find_reverse (\<lambda>w i. Inr (w, i)) ex_files (- 1) = Inr (ex_file 4, 3) \<and>
   find_arr_for_time (\<lambda>w i. Inr (w, i)) ex_files 4 = Inr (ex_file 2, 1) \<and>
   find_arr_for_time (\<lambda>w i. Inr (w, i)) ex_files (- 1) = Inr (ex_file 4, 3)"
proof -
  have h: "has_extents ex_files [3, 2, 4]"
    by (simp add: has_extents_def ex_files_def ex_file_def extract_dim_def)
  have f: "find_forward (\<lambda>w i. Inr (w, i)) ex_files 4 = Inr (ex_file 2, 1)"
    by (simp add: find_forward_def ex_files_def ex_file_def extract_dim_def)
  have r: "find_reverse (\<lambda>w i. Inr (w, i)) ex_files (- 1) = Inr (ex_file 4, 3)"
    by (simp add: find_reverse_def ex_files_def ex_file_def extract_dim_def)
  from time_index_locator[OF h, of 4 "\<lambda>w i. Inr (w, i)"] time_index_locator[OF h, of "- 1" "\<lambda>w i. Inr (w, i)"]
  show ?thesis using h f r by (simp add: ex_files_def)
qed

text \<open>
  Claim C8.  With total time extent \<open>N\<close>, a global index \<open>t \<ge> N\<close> makes the forward
  walk, and a negative index \<open>t < -N\<close> the reverse walk, end in the out-of-bounds error
  that carries the offending index \<open>t\<close>; the result is the error and no array.
\<close>

theorem time_index_out_of_bounds:
  assumes "has_extents wrfseq ns"
  shows "(int (sum_list ns) \<le> t \<longrightarrow>
            find_forward found wrfseq t = Inl (TimeIdxOutOfBounds t) \<and>
            find_arr_for_time found wrfseq t = Inl (TimeIdxOutOfBounds t)) \<and>
         (t < - int (sum_list ns) \<longrightarrow>
            find_reverse found wrfseq t = Inl (TimeIdxOutOfBounds t) \<and>
            find_arr_for_time found wrfseq t = Inl (TimeIdxOutOfBounds t))"
proof (intro conjI impI)
  assume a: "int (sum_list ns) \<le> t"
  then have "0 + int (sum_list ns) \<le> t" by simp
  from find_forward_loop_miss[OF assms this, of found]
  show f: "find_forward found wrfseq t = Inl (TimeIdxOutOfBounds t)"
    by (simp add: find_forward_def)
  from a have "0 \<le> t" by (smt (verit) of_nat_0_le_iff)
  with f show "find_arr_for_time found wrfseq t = Inl (TimeIdxOutOfBounds t)"
    by (simp add: find_arr_for_time_def)
next
  assume a: "t < - int (sum_list ns)"
  then have "0 + int (sum_list (rev ns)) \<le> - t - 1" by simp
  from find_reverse_loop_miss[OF has_extents_rev[OF assms] this, of found t]
  show r: "find_reverse found wrfseq t = Inl (TimeIdxOutOfBounds t)"
    by (simp add: find_reverse_def)
  from a have "\<not> 0 \<le> t" by (smt (verit) of_nat_0_le_iff)
  with r show "find_arr_for_time found wrfseq t = Inl (TimeIdxOutOfBounds t)"
    by (simp add: find_arr_for_time_def)
qed

theorem time_index_out_of_bounds_witness:
  "has_extents ex_files [3, 2, 4] \<and>
   find_arr_for_time (\<lambda>w i. Inr (w, i)) ex_files 9 = Inl (TimeIdxOutOfBounds 9) \<and>
   find_arr_for_time (\<lambda>w i. Inr (w, i)) ex_files (- 10) = Inl (TimeIdxOutOfBounds (- 10))"
proof -
  have h: "has_extents ex_files [3, 2, 4]"
    by (simp add: has_extents_def ex_files_def ex_file_def extract_dim_def)
  from time_index_out_of_bounds[OF h, of 9 "\<lambda>w i. Inr (w, i)"]
       time_index_out_of_bounds[OF h, of "- 10" "\<lambda>w i. Inr (w, i)"]
  show ?thesis using h by simp
qed

section \<open>Properties of the moving-domain detector\<close>

lemma norm_index_nat: "i < n \<Longrightarrow> norm_index n (int i) = Some i"
  by (simp add: norm_index_def)

lemma norm_index_zero: "0 < n \<Longrightarrow> norm_index n 0 = Some 0"
  by (simp add: norm_index_def)

lemma norm_index_last: "0 < n \<Longrightarrow> norm_index n (- 1) = Some (n - 1)"
  by (auto simp: norm_index_def Let_def nat_eq_iff)

lemma flat_index_start:
  "i < t \<Longrightarrow> 0 < y \<Longrightarrow> 0 < x \<Longrightarrow> flat_index [t, y, x] [int i, 0, 0] = Some (i * (y * x))"
  by (simp add: norm_index_nat norm_index_zero)

lemma last_offset: "0 < y \<Longrightarrow> 0 < x \<Longrightarrow> (y - 1) * x + (x - 1) = y * x - (1::nat)"
  by (cases y; cases x) (simp_all add: algebra_simps)

lemma flat_index_end:
  "i < t \<Longrightarrow> 0 < y \<Longrightarrow> 0 < x \<Longrightarrow>
   flat_index [t, y, x] [int i, - 1, - 1] = Some (i * (y * x) + y * x - 1)"
proof -
  assume a: "i < t" "0 < y" "0 < x"
  then have "0 < y * x" by simp
  with a show ?thesis
    using last_offset[of y x] by (simp add: norm_index_nat norm_index_last)
qed

lemma corner_differs_3d:
  assumes "shape lats = [t, y, x]" "shape lons = [t, y, x]" "i < t" "0 < y" "0 < x"
  shows "corner_differs lats lons ll ur i = Inr (slice_corners lats lons i \<noteq> (ll, ur))"
proof -
  have s: "(replicate 3 (0::int))[0 := int i] = [int i, 0, 0]"
    "(replicate 3 (- 1::int))[0 := int i] = [int i, - 1, - 1]"
    by (simp_all add: numeral_3_eq_3)
  show ?thesis
    using assms flat_index_start[OF assms(3-5)] flat_index_end[OF assms(3-5)]
    by (cases ll; cases ur)
       (auto simp: corner_differs_def getitem_tuple_def s slice_corners_def Let_def)
qed

lemma corners_moved_loop_iff:
  "(\<And>i. i \<in> set idxs \<Longrightarrow> corner_differs lats lons ll ur i = Inr (d i)) \<Longrightarrow>
   corners_moved_loop lats lons ll ur idxs = Inr (\<exists>i\<in>set idxs. d i)"
  by (induction idxs) (auto split: bool.splits)

lemma corners_moved_3d:
  assumes "variables w lat = Some latv" "variables w lon = Some lonv"
    and "shape (var_data latv) = [t, y, x]" "shape (var_data lonv) = [t, y, x]" "0 < y" "0 < x"
  shows "corners_moved w ll ur lat lon =
           Inr (\<exists>i<t. slice_corners (var_data latv) (var_data lonv) i \<noteq> (ll, ur))"
proof -
  have "corners_moved_loop (var_data latv) (var_data lonv) ll ur [0..<t] =
          Inr (\<exists>i\<in>set [0..<t]. slice_corners (var_data latv) (var_data lonv) i \<noteq> (ll, ur))"
    by (rule corners_moved_loop_iff) (simp add: corner_differs_3d[OF assms(3,4) _ assms(5,6)])
  moreover have "(\<exists>i\<in>set [0..<t]. slice_corners (var_data latv) (var_data lonv) i \<noteq> (ll, ur)) =
      (\<exists>i<t. slice_corners (var_data latv) (var_data lonv) i \<noteq> (ll, ur))"
    by auto
  ultimately show ?thesis using assms by (simp add: corners_moved_def)
qed

lemma reference_corners_3d:
  assumes "variables w lat = Some latv" "variables w lon = Some lonv"
    and "shape (var_data latv) = [t, y, x]" "shape (var_data lonv) = [t, y, x]"
    and "0 < t" "0 < y" "0 < x"
  shows "reference_corners w lat lon = Inr (slice_corners (var_data latv) (var_data lonv) 0)"
proof -
  have s: "replicate 3 (0::int) = [0, 0, 0]" by (simp add: numeral_3_eq_3)
  show ?thesis
    using assms flat_index_start[of 0 t y x] flat_index_end[of 0 t y x]
    by (simp add: reference_corners_def getitem_tuple_def s slice_corners_def Let_def)
qed

lemma search_files_static:
  "(\<And>w. w \<in> set ws \<Longrightarrow> corners_moved w ll ur lat lon = Inr False) \<Longrightarrow>
   search_files ws ll ur lat lon = Inr False"
  by (induction ws) (auto split: bool.splits)

lemma search_files_moved:
  "(\<And>v. v \<in> set pre \<Longrightarrow> corners_moved v ll ur lat lon = Inr False) \<Longrightarrow>
   corners_moved w ll ur lat lon = Inr True \<Longrightarrow>
   search_files (pre @ w # post) ll ur lat lon = Inr True"
  by (induction pre) (auto split: bool.splits)

lemmas ex_defs = grid_file_def static_file_def drifting_file_def shifted_file_def mk_var_def

lemmas mv_defs = default_latvar_def default_lonvar_def either_names_def coord_names_of_def
  moving_product_def get_cached_item_def reference_corners_def getitem_tuple_def norm_index_def
  corners_moved_def corner_differs_def is_moving_seq_def Let_def

text \<open>
  Claim C3.  On a sequence of files, with the coordinate pair resolved, no value cached
  for the token and the reference corners read from the first file: the detector
  returns false, and caches false, when no later file has moved against the reference;
  it returns true, and caches true, at the first later file that has moved, whatever
  follows that file.  A later file has moved when the corner points of one of its time
  slices differ from the reference.  The reference is the corner points of the first
  time slice of the first file only: the later time slices of the first file are not
  inspected.
\<close>

theorem moving_domain_detector:
  fixes first_wrfnc :: "'a source"
  assumes "resolve_coordarg latvar (Files (Seq (first_wrfnc # rest))) = Inr lat"
    and "resolve_coordarg lonvar (Files (Seq (first_wrfnc # rest))) = Inr lon"
    and "coord_names_of first_wrfnc varname lat lon = Inr (lat_coord, lon_coord)"
    and "get_cached_item c k (moving_product lat_coord lon_coord) = None"
    and "reference_corners first_wrfnc lat_coord lon_coord = Inr (ll, ur)"
  shows "((\<forall>w\<in>set rest. corners_moved w ll ur lat_coord lon_coord = Inr False) \<longrightarrow>
            is_moving_domain (Files (Seq (first_wrfnc # rest))) varname latvar lonvar k c =
              Inr (Flag False, cache_item k (moving_product lat_coord lon_coord) (Flag False) c)) \<and>
         (\<forall>pre w post.
            rest = pre @ w # post \<and>
            (\<forall>v\<in>set pre. corners_moved v ll ur lat_coord lon_coord = Inr False) \<and>
            corners_moved w ll ur lat_coord lon_coord = Inr True \<longrightarrow>
            is_moving_domain (Files (Seq (first_wrfnc # rest))) varname latvar lonvar k c =
              Inr (Flag True, cache_item k (moving_product lat_coord lon_coord) (Flag True) c)) \<and>
         (\<forall>(w :: 'a source) latv lonv t y x.
            variables w lat_coord = Some latv \<and> variables w lon_coord = Some lonv \<and>
            shape (var_data latv) = [t, y, x] \<and> shape (var_data lonv) = [t, y, x] \<and>
            0 < y \<and> 0 < x \<longrightarrow>
            corners_moved w ll ur lat_coord lon_coord =
              Inr (\<exists>i<t. slice_corners (var_data latv) (var_data lonv) i \<noteq> (ll, ur))) \<and>
         (\<forall>latv lonv t y x.
            variables first_wrfnc lat_coord = Some latv \<and>
            variables first_wrfnc lon_coord = Some lonv \<and>
            shape (var_data latv) = [t, y, x] \<and> shape (var_data lonv) = [t, y, x] \<and>
            0 < t \<and> 0 < y \<and> 0 < x \<longrightarrow>
            (ll, ur) = slice_corners (var_data latv) (var_data lonv) 0)"
proof (intro conjI allI impI)
  assume "\<forall>w\<in>set rest. corners_moved w ll ur lat_coord lon_coord = Inr False"
  then have "search_files rest ll ur lat_coord lon_coord = Inr False"
    by (simp add: search_files_static)
  with assms show "is_moving_domain (Files (Seq (first_wrfnc # rest))) varname latvar lonvar k c =
      Inr (Flag False, cache_item k (moving_product lat_coord lon_coord) (Flag False) c)"
    by (simp add: is_moving_seq_def)
next
  fix pre w post
  assume "rest = pre @ w # post \<and>
          (\<forall>v\<in>set pre. corners_moved v ll ur lat_coord lon_coord = Inr False) \<and>
          corners_moved w ll ur lat_coord lon_coord = Inr True"
  then have "search_files rest ll ur lat_coord lon_coord = Inr True"
    by (simp add: search_files_moved)
  with assms show "is_moving_domain (Files (Seq (first_wrfnc # rest))) varname latvar lonvar k c =
      Inr (Flag True, cache_item k (moving_product lat_coord lon_coord) (Flag True) c)"
    by (simp add: is_moving_seq_def)
next
  fix w :: "'a source" and latv lonv t y x
  assume "variables w lat_coord = Some latv \<and> variables w lon_coord = Some lonv \<and>
          shape (var_data latv) = [t, y, x] \<and> shape (var_data lonv) = [t, y, x] \<and> 0 < y \<and> 0 < x"
  then show "corners_moved w ll ur lat_coord lon_coord =
      Inr (\<exists>i<t. slice_corners (var_data latv) (var_data lonv) i \<noteq> (ll, ur))"
    by (simp add: corners_moved_3d)
next
  fix latv lonv t y x
  assume "variables first_wrfnc lat_coord = Some latv \<and>
          variables first_wrfnc lon_coord = Some lonv \<and>
          shape (var_data latv) = [t, y, x] \<and> shape (var_data lonv) = [t, y, x] \<and>
          0 < t \<and> 0 < y \<and> 0 < x"
  then have "reference_corners first_wrfnc lat_coord lon_coord =
      Inr (slice_corners (var_data latv) (var_data lonv) 0)"
    by (simp add: reference_corners_3d)
  with assms(5) show "(ll, ur) = slice_corners (var_data latv) (var_data lonv) 0" by simp
qed

lemma ex_reference: "reference_corners static_file ''XLAT'' ''XLONG'' = Inr ((10, 30), (20, 40))"
  by (simp add: ex_defs mv_defs)

lemma ex_static_same: "corners_moved static_file (10, 30) (20, 40) ''XLAT'' ''XLONG'' = Inr False"
  by (simp add: ex_defs mv_defs)

lemma ex_shifted_moved: "corners_moved shifted_file (10, 30) (20, 40) ''XLAT'' ''XLONG'' = Inr True"
  by (simp add: ex_defs mv_defs)

theorem moving_domain_detector_witness:
  "is_moving_domain (Files (Seq [static_file, static_file, static_file])) None
     default_latvar default_lonvar KNone Map.empty =
     Inr (Flag False, cache_item KNone ''is_moving_XLAT_XLONG'' (Flag False) Map.empty) \<and>
   is_moving_domain (Files (Seq [static_file, static_file, shifted_file, static_file])) None
     default_latvar default_lonvar KNone Map.empty =
     Inr (Flag True, cache_item KNone ''is_moving_XLAT_XLONG'' (Flag True) Map.empty)"
proof -
  have lat: "\<And>rest. resolve_coordarg default_latvar (Files (Seq (static_file # rest))) = Inr ''XLAT''"
    and lon: "\<And>rest. resolve_coordarg default_lonvar (Files (Seq (static_file # rest))) = Inr ''XLONG''"
    by (simp_all add: ex_defs mv_defs)
  have names: "coord_names_of static_file None ''XLAT'' ''XLONG'' = Inr (''XLAT'', ''XLONG'')"
    by (simp add: coord_names_of_def)
  have nocache: "get_cached_item (Map.empty :: int cache) KNone (moving_product ''XLAT'' ''XLONG'') = None"
    by (simp add: get_cached_item_def)
  have prod: "moving_product ''XLAT'' ''XLONG'' = ''is_moving_XLAT_XLONG''"
    by (simp add: moving_product_def)
  note thm1 = moving_domain_detector[OF lat lon names nocache ex_reference,
      where rest = "[static_file, static_file]"]
  note thm2 = moving_domain_detector[OF lat lon names nocache ex_reference,
      where rest = "[static_file, shifted_file, static_file]"]
  have a: "is_moving_domain (Files (Seq [static_file, static_file, static_file])) None
     default_latvar default_lonvar KNone Map.empty =
     Inr (Flag False, cache_item KNone ''is_moving_XLAT_XLONG'' (Flag False) Map.empty)"
    using thm1 ex_static_same by (simp add: prod)
  from thm2 have "[static_file, shifted_file, static_file] = [static_file] @ shifted_file # [static_file] \<and>
      (\<forall>v\<in>set [static_file]. corners_moved v (10, 30) (20, 40) ''XLAT'' ''XLONG'' = Inr False) \<and>
      corners_moved shifted_file (10, 30) (20, 40) ''XLAT'' ''XLONG'' = Inr True \<longrightarrow>
      is_moving_domain (Files (Seq [static_file, static_file, shifted_file, static_file])) None
        default_latvar default_lonvar KNone Map.empty =
      Inr (Flag True, cache_item KNone ''is_moving_XLAT_XLONG'' (Flag True) Map.empty)"
    unfolding prod by blast
  then have b: "is_moving_domain (Files (Seq [static_file, static_file, shifted_file, static_file])) None
     default_latvar default_lonvar KNone Map.empty =
     Inr (Flag True, cache_item KNone ''is_moving_XLAT_XLONG'' (Flag True) Map.empty)"
    using ex_static_same ex_shifted_moved by simp
  from a b show ?thesis by simp
qed

text \<open>
  The first file below has two time slices with different corner points and the second
  file equals its first time slice: the files do not share identical corner values, yet
  the detector answers false.
\<close>

theorem moving_domain_detector_counterexample:
  "\<not> share_identical_corners [drifting_file, static_file] ''XLAT'' ''XLONG'' \<and>
   is_moving_domain (Files (Seq [drifting_file, static_file])) None
     default_latvar default_lonvar KNone Map.empty =
     Inr (Flag False, cache_item KNone ''is_moving_XLAT_XLONG'' (Flag False) Map.empty)"
proof
  show "\<not> share_identical_corners [drifting_file, static_file] ''XLAT'' ''XLONG''"
    by code_simp
  show "is_moving_domain (Files (Seq [drifting_file, static_file])) None
     default_latvar default_lonvar KNone Map.empty =
     Inr (Flag False, cache_item KNone ''is_moving_XLAT_XLONG'' (Flag False) Map.empty)"
    by (simp add: ex_defs mv_defs)
qed

text \<open>
  Claim C10.  On a single file passed directly, with the coordinate pair resolved: when
  no value is cached for the token and the reference corners can be read, the detector
  returns false and caches false under the token, whatever the latitudes and longitudes
  of the later time slices are; when a value is cached for the token, that value is
  returned and the cache is left as it is.
\<close>

theorem single_source_not_moving:
  assumes "resolve_coordarg latvar (Files (Single wrfnc)) = Inr lat"
    and "resolve_coordarg lonvar (Files (Single wrfnc)) = Inr lon"
    and "coord_names_of wrfnc varname lat lon = Inr (lat_coord, lon_coord)"
  shows "(get_cached_item c k (moving_product lat_coord lon_coord) = None \<and>
          reference_corners wrfnc lat_coord lon_coord = Inr (ll, ur) \<longrightarrow>
            is_moving_domain (Files (Single wrfnc)) varname latvar lonvar k c =
              Inr (Flag False, cache_item k (moving_product lat_coord lon_coord) (Flag False) c)) \<and>
         (get_cached_item c k (moving_product lat_coord lon_coord) = Some moving \<longrightarrow>
            is_moving_domain (Files (Single wrfnc)) varname latvar lonvar k c = Inr (moving, c))"
  using assms by (simp add: is_moving_seq_def)

theorem single_source_not_moving_witness:
  "is_moving_domain (Files (Single drifting_file)) None default_latvar default_lonvar (KId 1) Map.empty =
     Inr (Flag False, cache_item (KId 1) ''is_moving_XLAT_XLONG'' (Flag False) Map.empty) \<and>
   is_moving_domain (Files (Single drifting_file)) None default_latvar default_lonvar (KId 1) moving_cache =
     Inr (Flag True, moving_cache)"
proof -
  have lat: "resolve_coordarg default_latvar (Files (Single drifting_file)) = Inr ''XLAT''"
    and lon: "resolve_coordarg default_lonvar (Files (Single drifting_file)) = Inr ''XLONG''"
    by (simp_all add: ex_defs mv_defs)
  have names: "coord_names_of drifting_file None ''XLAT'' ''XLONG'' = Inr (''XLAT'', ''XLONG'')"
    by (simp add: coord_names_of_def)
  have prod: "moving_product ''XLAT'' ''XLONG'' = ''is_moving_XLAT_XLONG''"
    by (simp add: moving_product_def)
  have ref: "reference_corners drifting_file ''XLAT'' ''XLONG'' = Inr ((10, 30), (20, 40))"
    by (simp add: ex_defs mv_defs)
  have nocache: "get_cached_item (Map.empty :: int cache) (KId 1) ''is_moving_XLAT_XLONG'' = None"
    by (simp add: get_cached_item_def)
  have cached: "get_cached_item moving_cache (KId 1) ''is_moving_XLAT_XLONG'' = Some (Flag True)"
    by (simp add: get_cached_item_def moving_cache_def cache_item_def)
  from single_source_not_moving[OF lat lon names, of Map.empty "KId 1" "(10, 30)" "(20, 40)" "Flag True"]
       single_source_not_moving[OF lat lon names, of moving_cache "KId 1" "(10, 30)" "(20, 40)" "Flag True"]
  show ?thesis using ref nocache cached by (simp add: prod)
qed

text \<open>
  With the flag \<open>True\<close> cached under the token, the detector answers true on a single
  file and does not cache false.
\<close>

theorem single_source_not_moving_counterexample:
  "is_moving_domain (Files (Single static_file)) None default_latvar default_lonvar (KId 1) moving_cache =
     Inr (Flag True, moving_cache)"
  by (simp add: ex_defs mv_defs moving_cache_def cache_item_def)

section \<open>Properties of the array operations\<close>

lemma concat_chunks: "length xs = k * b \<Longrightarrow> concat (chunks k b xs) = xs"
proof (induction k arbitrary: xs)
  case 0
  then show ?case by (simp add: chunks_def)
next
  case (Suc k)
  have "chunks (Suc k) b xs = take b xs # chunks k b (drop b xs)"
  proof -
    have "[0..<Suc k] = 0 # map Suc [0..<k]"
      by (simp add: upt_conv_Cons map_Suc_upt del: upt_Suc)
    then show ?thesis by (simp add: chunks_def o_def add.commute del: upt_Suc)
  qed
  moreover from Suc.prems have "length (drop b xs) = k * b" by simp
  ultimately show ?case using Suc.IH[of "drop b xs"] by simp
qed

lemma chunks_length: "length xs = k * b \<Longrightarrow> ys \<in> set (chunks k b xs) \<Longrightarrow> length ys = b"
proof -
  assume l: "length xs = k * b" and "ys \<in> set (chunks k b xs)"
  then obtain j where j: "j < k" and ys: "ys = take b (drop (j * b) xs)"
    by (auto simp: chunks_def)
  from j have "j * b + b \<le> k * b"
    by (metis Suc_leI mult_Suc mult_le_mono1 add.commute)
  with l ys show ?thesis by simp
qed

lemma broadcastable_refl: "broadcastable s s"
  by (induction s) auto

lemma broadcast_vals_same: "length xs = prod_list s \<Longrightarrow> broadcast_vals s s xs = xs"
proof (induction s arbitrary: xs)
  case Nil
  then show ?case by simp
next
  case (Cons n s)
  then have l: "length xs = n * prod_list s" by simp
  have "map (broadcast_vals s s) (chunks n (prod_list s) xs) = chunks n (prod_list s) xs"
    by (rule map_idI) (simp add: Cons.IH chunks_length[OF l])
  then show ?case using concat_chunks[OF l] by simp
qed

lemma strip_ones_short: "length s \<le> nd \<Longrightarrow> strip_ones nd s = s"
  by (cases s) auto

lemma broadcast_to_same:
  "shape a = s \<Longrightarrow> length (vals a) = prod_list s \<Longrightarrow> broadcast_to s a = Some (vals a)"
  by (simp add: broadcast_to_def strip_ones_short broadcastable_refl broadcast_vals_same)

lemma broadcast_to_leading_one:
  "shape a = 1 # s \<Longrightarrow> length (vals a) = prod_list s \<Longrightarrow> broadcast_to s a = Some (vals a)"
  by (simp add: broadcast_to_def strip_ones_short broadcastable_refl broadcast_vals_same)

lemma setitem_row_same:
  assumes "shape out = n # m # rest" "shape v = m # rest"
    and "length (vals v) = prod_list (m # rest)" "idx < n"
  shows "setitem_row out idx v =
     Inr (out\<lparr>vals := take (idx * prod_list (m # rest)) (vals out) @ vals v @
                       drop ((idx + 1) * prod_list (m # rest)) (vals out)\<rparr>)"
  using assms broadcast_to_same[OF assms(2,3)] by (simp add: setitem_row_def Let_def)




section \<open>Properties of the extraction facade\<close>











section \<open>Properties of the dictionary combiner\<close>

lemma combine_dict_loop_prefix:
  assumes "entry_results env pre varname timeidx is_moving method k c = Inr (rs, c2)"
    and "\<forall>r\<in>set rs. shape (data_of r) = m # rest \<and> length (vals (data_of r)) = prod_list (m # rest)"
    and "shape out = n # m # rest"
    and "vals out = done @ todo" "length done = idx * prod_list (m # rest)"
    and "length todo = (n - idx) * prod_list (m # rest)" "idx + length pre \<le> n"
  shows "combine_dict_loop env (pre @ post) varname timeidx is_moving method k out idx c =
         combine_dict_loop env post varname timeidx is_moving method k
           (out\<lparr>vals := done @ concat (map (\<lambda>r. vals (data_of r)) rs) @
                            drop (length pre * prod_list (m # rest)) todo\<rparr>)
           (idx + length pre) c2"
  using assms
proof (induction pre arbitrary: out idx c rs "done" todo)
  case Nil
  from Nil.prems(1) show ?case by (simp add: Nil.prems(4)[symmetric])
next
  case (Cons p pre)
  obtain key entry where p: "p = (key, entry)" by (cases p)
  let ?b = "prod_list (m # rest)"
  from Cons.prems(1) p obtain k1 r c1 rs' where
    kg: "key_getitem k key = Inr k1"
    and ev: "extract_var env entry varname timeidx (Some is_moving) method False None k1 c = Inr (r, c1)"
    and er: "entry_results env pre varname timeidx is_moving method k c1 = Inr (rs', c2)"
    and rs: "rs = r # rs'"
    by (auto simp del: extract_var.simps split: sum.splits prod.splits)
  from Cons.prems(2) rs have shr: "shape (data_of r) = m # rest"
    and lr: "length (vals (data_of r)) = ?b"
    and rest_ok: "\<forall>r\<in>set rs'. shape (data_of r) = m # rest \<and> length (vals (data_of r)) = ?b"
    by simp_all
  from Cons.prems(7) have idx: "idx < n" by simp
  have set_ok: "setitem_row out idx (data_of r) =
      Inr (out\<lparr>vals := take (idx * ?b) (vals out) @ vals (data_of r) @ drop ((idx + 1) * ?b) (vals out)\<rparr>)"
    by (rule setitem_row_same[OF Cons.prems(3) shr lr idx])
  from idx Cons.prems(6) have lt: "?b \<le> length todo"
    by (metis Suc_leI zero_less_diff mult.commute mult_le_mono2 mult.right_neutral Suc_eq_plus1 nat_mult_1_right One_nat_def)
  have tk: "take (idx * ?b) (vals out) = done" using Cons.prems(4,5) by simp
  have dr: "drop ((idx + 1) * ?b) (vals out) = drop ?b todo"
    using Cons.prems(4,5) by (simp add: algebra_simps)
  let ?out' = "out\<lparr>vals := (done @ vals (data_of r)) @ drop ?b todo\<rparr>"
  have step: "combine_dict_loop env ((key, entry) # pre @ post) varname timeidx is_moving method k out idx c =
      combine_dict_loop env (pre @ post) varname timeidx is_moving method k ?out' (idx + 1) c1"
    using kg ev shr Cons.prems(3) set_ok tk dr by (simp del: extract_var.simps)
  have l1: "length (done @ vals (data_of r)) = (idx + 1) * ?b"
    using Cons.prems(5) lr by (simp add: algebra_simps)
  have l2: "length (drop ?b todo) = (n - (idx + 1)) * ?b"
    using Cons.prems(6) by (simp add: algebra_simps diff_mult_distrib)
  have "combine_dict_loop env (pre @ post) varname timeidx is_moving method k ?out' (idx + 1) c1 =
      combine_dict_loop env post varname timeidx is_moving method k
        (?out'\<lparr>vals := (done @ vals (data_of r)) @ concat (map (\<lambda>r. vals (data_of r)) rs') @
                          drop (length pre * ?b) (drop ?b todo)\<rparr>)
        (idx + 1 + length pre) c2"
    by (rule Cons.IH[OF er rest_ok _ _ l1 l2]) (use Cons.prems(3,7) in simp_all)
  with step p rs show ?case by (simp add: add.commute algebra_simps del: extract_var.simps)
qed

lemma nth_block_concat:
  "\<forall>r\<in>set rs. length (f r) = b \<Longrightarrow> i < length rs \<Longrightarrow>
   take b (drop (i * b) (concat (map f rs))) = f (rs ! i)"
proof (induction rs arbitrary: i)
  case Nil
  then show ?case by simp
next
  case (Cons r rs)
  show ?case
  proof (cases i)
    case 0
    with Cons.prems show ?thesis by simp
  next
    case (Suc j)
    with Cons.prems have "take b (drop (j * b) (concat (map f rs))) = f (rs ! j)"
      by (intro Cons.IH) simp_all
    with Suc Cons.prems show ?thesis by simp
  qed
qed

lemma combine_dict_start:
  assumes "is_moving_domain (Dict ((k0, e0) # es)) (Some varname) default_latvar default_lonvar k c =
             Inr (is_moving, c1)"
    and "key_getitem k k0 = Inr k1"
    and "extract_var env e0 varname timeidx (Some is_moving) method False None k1 c1 = Inr (x, cx)"
    and "shape (data_of x) = m # rest" "length (vals (data_of x)) = prod_list (m # rest)"
  shows "combine_dict env ((k0, e0) # es) varname timeidx method k c =
     (case combine_dict_loop env es varname timeidx is_moving method k
             ((np_empty (uninit env) (Suc (length es) # m # rest))
                \<lparr>vals := vals (data_of x) @
                   drop (prod_list (m # rest))
                     (vals (np_empty (uninit env) (Suc (length es) # m # rest)))\<rparr>) 1 cx of
        Inl e \<Rightarrow> Inl e
      | Inr (out, c3) \<Rightarrow> Inr (NDArray out, c3))"
proof -
  let ?o = "np_empty (uninit env) (Suc (length es) # m # rest)"
  have sh: "shape ?o = Suc (length es) # m # rest" by (simp add: np_empty_def)
  have "setitem_row ?o 0 (data_of x) =
      Inr (?o\<lparr>vals := take (0 * prod_list (m # rest)) (vals ?o) @ vals (data_of x) @
                        drop ((0 + 1) * prod_list (m # rest)) (vals ?o)\<rparr>)"
    by (rule setitem_row_same[OF sh assms(4,5)]) simp
  then have "setitem_row ?o 0 (data_of x) =
      Inr (?o\<lparr>vals := vals (data_of x) @ drop (prod_list (m # rest)) (vals ?o)\<rparr>)"
    by simp
  with assms(1-4) show ?thesis
    by (simp del: extract_var.simps is_moving_domain.simps)
qed

lemma is_moving_domain_Dict_nonempty:
  "is_moving_domain (Dict d) varname latvar lonvar k c = Inr r \<Longrightarrow> d \<noteq> []"
  by (cases d) (auto split: sum.splits)

text \<open>
  Claim C5.  Let the moving-domain detection on the dictionary succeed.  When the
  entries combine, in key order, to arrays that all have the shape \<open>s\<close> (of at least
  one axis), the dictionary combines to an array of shape [number of keys] + \<open>s\<close> whose
  index \<open>i\<close> on the new, leftmost axis is the array of the \<open>i\<close>-th key: for the keys
  \<open>a\<close>, \<open>b\<close> with arrays \<open>X\<close>, \<open>Y\<close> of shape (5, 5) the result has shape (2, 5, 5), index
  0 is \<open>X\<close> and index 1 is \<open>Y\<close>.  When the entry of a later key combines to an array
  whose shape differs from the shape of the first key's array (the keys before it
  agreeing with the first), the combination fails with the size-mismatch error.
\<close>

theorem dict_combiner:
  assumes "is_moving_domain (Dict wrfdict) (Some varname) default_latvar default_lonvar k c =
             Inr (is_moving, c1)"
  shows "(entry_results env wrfdict varname timeidx is_moving method k c1 = Inr (rs, c2) \<and>
          (\<forall>r\<in>set rs. shape (data_of r) = m # rest \<and>
                       length (vals (data_of r)) = prod_list (m # rest)) \<longrightarrow>
            combine_dict env wrfdict varname timeidx method k c =
              Inr (NDArray \<lparr>shape = length wrfdict # m # rest,
                            vals = concat (map (\<lambda>r. vals (data_of r)) rs)\<rparr>, c2) \<and>
            (\<forall>i<length rs.
               getitem_row \<lparr>shape = length wrfdict # m # rest,
                            vals = concat (map (\<lambda>r. vals (data_of r)) rs)\<rparr> (int i) =
                 Inr (data_of (rs ! i)))) \<and>
         (wrfdict = pre @ (key, entry) # post \<and> pre \<noteq> [] \<and>
          entry_results env pre varname timeidx is_moving method k c1 = Inr (rs, c2) \<and>
          (\<forall>r\<in>set rs. shape (data_of r) = m # rest \<and>
                       length (vals (data_of r)) = prod_list (m # rest)) \<and>
          key_getitem k key = Inr k1 \<and>
          extract_var env entry varname timeidx (Some is_moving) method False None k1 c2 = Inr (y, c3) \<and>
          shape (data_of y) \<noteq> m # rest \<longrightarrow>
            combine_dict env wrfdict varname timeidx method k c =
              Inl (ValueError ''data sequences must have the same size for all dictionary keys''))"
proof (intro conjI impI)
  let ?b = "prod_list (m # rest)"
  assume a: "entry_results env wrfdict varname timeidx is_moving method k c1 = Inr (rs, c2) \<and>
          (\<forall>r\<in>set rs. shape (data_of r) = m # rest \<and> length (vals (data_of r)) = ?b)"
  from is_moving_domain_Dict_nonempty[OF assms] obtain k0 e0 es where d: "wrfdict = (k0, e0) # es"
    by (cases wrfdict) auto
  from a d obtain k1 x cx rs' where
    kg: "key_getitem k k0 = Inr k1"
    and ev: "extract_var env e0 varname timeidx (Some is_moving) method False None k1 c1 = Inr (x, cx)"
    and er: "entry_results env es varname timeidx is_moving method k cx = Inr (rs', c2)"
    and rs: "rs = x # rs'"
    by (auto simp del: extract_var.simps split: sum.splits prod.splits)
  from a rs have shx: "shape (data_of x) = m # rest" and lx: "length (vals (data_of x)) = ?b"
    and ok: "\<forall>r\<in>set rs'. shape (data_of r) = m # rest \<and> length (vals (data_of r)) = ?b"
    by simp_all
  let ?o = "np_empty (uninit env) (Suc (length es) # m # rest)"
  let ?o1 = "?o\<lparr>vals := vals (data_of x) @ drop ?b (vals ?o)\<rparr>"
  have len_rs: "length rs' = length es"
    using er by (induction es arbitrary: cx rs')
      (auto simp del: extract_var.simps split: sum.splits prod.splits)
  have lo: "length (vals ?o) = Suc (length es) * ?b" by (simp add: np_empty_def)
  have "combine_dict_loop env (es @ []) varname timeidx is_moving method k ?o1 1 cx =
      combine_dict_loop env [] varname timeidx is_moving method k
        (?o1\<lparr>vals := vals (data_of x) @ concat (map (\<lambda>r. vals (data_of r)) rs') @
                        drop (length es * ?b) (drop ?b (vals ?o))\<rparr>) (1 + length es) c2"
    by (rule combine_dict_loop_prefix[OF er ok]) (use lx lo in \<open>auto simp: np_empty_def\<close>)
  moreover have "drop (length es * ?b) (drop ?b (vals ?o)) = []" using lo by simp
  ultimately have loop: "combine_dict_loop env es varname timeidx is_moving method k ?o1 1 cx =
      Inr (\<lparr>shape = Suc (length es) # m # rest,
            vals = vals (data_of x) @ concat (map (\<lambda>r. vals (data_of r)) rs')\<rparr>, c2)"
    by (simp add: np_empty_def)
  from combine_dict_start[OF assms[unfolded d] kg ev shx lx] loop d rs
  show res: "combine_dict env wrfdict varname timeidx method k c =
      Inr (NDArray \<lparr>shape = length wrfdict # m # rest,
                    vals = concat (map (\<lambda>r. vals (data_of r)) rs)\<rparr>, c2)"
    by simp
  show "\<forall>i<length rs.
       getitem_row \<lparr>shape = length wrfdict # m # rest,
                    vals = concat (map (\<lambda>r. vals (data_of r)) rs)\<rparr> (int i) =
         Inr (data_of (rs ! i))"
  proof (intro allI impI)
    fix i assume i: "i < length rs"
    with rs len_rs d have il: "i < length wrfdict" by simp
    from a have all_len: "\<forall>r\<in>set rs. length (vals (data_of r)) = ?b" by simp
    have blk: "take ?b (drop (i * ?b) (concat (map (\<lambda>r. vals (data_of r)) rs))) = vals (data_of (rs ! i))"
      by (rule nth_block_concat[OF all_len i])
    from a i have "shape (data_of (rs ! i)) = m # rest" by simp
    then have "data_of (rs ! i) = \<lparr>shape = m # rest, vals = vals (data_of (rs ! i))\<rparr>"
      by (cases "data_of (rs ! i)") simp
    with il blk show "getitem_row \<lparr>shape = length wrfdict # m # rest,
                    vals = concat (map (\<lambda>r. vals (data_of r)) rs)\<rparr> (int i) =
         Inr (data_of (rs ! i))"
      by (simp add: getitem_row_def norm_index_def)
  qed
next
  let ?b = "prod_list (m # rest)"
  assume a: "wrfdict = pre @ (key, entry) # post \<and> pre \<noteq> [] \<and>
          entry_results env pre varname timeidx is_moving method k c1 = Inr (rs, c2) \<and>
          (\<forall>r\<in>set rs. shape (data_of r) = m # rest \<and> length (vals (data_of r)) = ?b) \<and>
          key_getitem k key = Inr k1 \<and>
          extract_var env entry varname timeidx (Some is_moving) method False None k1 c2 = Inr (y, c3) \<and>
          shape (data_of y) \<noteq> m # rest"
  then obtain k0 e0 pre' where pre: "pre = (k0, e0) # pre'" by (cases pre) auto
  let ?es = "pre' @ (key, entry) # post"
  from a pre have d: "wrfdict = (k0, e0) # ?es" by simp
  from a pre obtain k0' x cx rs' where
    kg: "key_getitem k k0 = Inr k0'"
    and ev: "extract_var env e0 varname timeidx (Some is_moving) method False None k0' c1 = Inr (x, cx)"
    and er: "entry_results env pre' varname timeidx is_moving method k cx = Inr (rs', c2)"
    and rs: "rs = x # rs'"
    by (auto simp del: extract_var.simps split: sum.splits prod.splits)
  from a rs have shx: "shape (data_of x) = m # rest" and lx: "length (vals (data_of x)) = ?b"
    and ok: "\<forall>r\<in>set rs'. shape (data_of r) = m # rest \<and> length (vals (data_of r)) = ?b"
    by simp_all
  let ?o = "np_empty (uninit env) (Suc (length ?es) # m # rest)"
  let ?o1 = "?o\<lparr>vals := vals (data_of x) @ drop ?b (vals ?o)\<rparr>"
  let ?o2 = "?o1\<lparr>vals := vals (data_of x) @ concat (map (\<lambda>r. vals (data_of r)) rs') @
                        drop (length pre' * ?b) (drop ?b (vals ?o))\<rparr>"
  have lo: "length (vals ?o) = Suc (length ?es) * ?b" by (simp add: np_empty_def)
  have pref: "combine_dict_loop env ?es varname timeidx is_moving method k ?o1 1 cx =
      combine_dict_loop env ((key, entry) # post) varname timeidx is_moving method k ?o2
        (1 + length pre') c2"
    by (rule combine_dict_loop_prefix[OF er ok]) (use lx lo in \<open>auto simp: np_empty_def\<close>)
  have "shape ?o2 = Suc (length ?es) # m # rest" by (simp add: np_empty_def)
  with a have "combine_dict_loop env ((key, entry) # post) varname timeidx is_moving method k ?o2
        (1 + length pre') c2 =
      Inl (ValueError ''data sequences must have the same size for all dictionary keys'')"
    by (auto simp del: extract_var.simps)
  with pref combine_dict_start[OF assms[unfolded d] kg ev shx lx] d
  show "combine_dict env wrfdict varname timeidx method k c =
      Inl (ValueError ''data sequences must have the same size for all dictionary keys'')"
    by simp
qed

lemma ex_dict_moving:
  "is_moving_domain (Dict ((''a'', Files (Single (dict_file s xs))) # es)) (Some ''T'')
     default_latvar default_lonvar ex_key Map.empty = Inr (Flag False, ex_dict_cache)"
  by (simp add: dict_file_def mk_var_def mv_defs ex_key_def ex_dict_cache_def)

theorem dict_combiner_witness:
  "combine_dict ex_env ex_dict ''T'' None ''cat'' ex_key Map.empty =
     Inr (NDArray \<lparr>shape = [2, 5, 5], vals = array_x @ array_y\<rparr>, ex_dict_cache) \<and>
   getitem_row \<lparr>shape = [2, 5, 5], vals = array_x @ array_y\<rparr> 0 =
     Inr \<lparr>shape = [5, 5], vals = array_x\<rparr> \<and>
   getitem_row \<lparr>shape = [2, 5, 5], vals = array_x @ array_y\<rparr> 1 =
     Inr \<lparr>shape = [5, 5], vals = array_y\<rparr> \<and>
   combine_dict ex_env ex_dict_bad ''T'' None ''cat'' ex_key Map.empty =
     Inl (ValueError ''data sequences must have the same size for all dictionary keys'')"
proof -
  let ?x = "NDArray \<lparr>shape = [5, 5], vals = array_x\<rparr>"
  let ?y = "NDArray \<lparr>shape = [5, 5], vals = array_y\<rparr>"
  have mv: "is_moving_domain (Dict ex_dict) (Some ''T'') default_latvar default_lonvar ex_key Map.empty =
      Inr (Flag False, ex_dict_cache)"
    unfolding ex_dict_def by (rule ex_dict_moving)
  have mvb: "is_moving_domain (Dict ex_dict_bad) (Some ''T'') default_latvar default_lonvar ex_key Map.empty =
      Inr (Flag False, ex_dict_cache)"
    unfolding ex_dict_bad_def by (rule ex_dict_moving)
  have nt: "\<not> is_time_coord_var ''T''" by (simp add: is_time_coord_var_def)
  have er: "entry_results ex_env ex_dict ''T'' None (Flag False) ''cat'' ex_key ex_dict_cache =
      Inr ([?x, ?y], ex_dict_cache)"
    by (simp add: ex_dict_def ex_key_def nt dict_file_def mk_var_def)
  have erb: "entry_results ex_env [(''a'', Files (Single (dict_file [5, 5] array_x)))] ''T'' None
      (Flag False) ''cat'' ex_key ex_dict_cache = Inr ([?x], ex_dict_cache)"
    by (simp add: ex_key_def nt dict_file_def mk_var_def)
  have kb: "key_getitem ex_key ''b'' = Inr (KId 2)" by (simp add: ex_key_def)
  have evb: "extract_var ex_env (Files (Single (dict_file [5, 4] (map int [0..<20])))) ''T'' None
      (Some (Flag False)) ''cat'' False None (KId 2) ex_dict_cache =
      Inr (NDArray \<lparr>shape = [5, 4], vals = map int [0..<20]\<rparr>, ex_dict_cache)"
    by (simp add: nt dict_file_def mk_var_def)
  have lens: "length array_x = 25" "length array_y = 25" by (simp_all add: array_x_def array_y_def)
  note ok = dict_combiner[OF mv, of ex_env None "''cat''" "[?x, ?y]" ex_dict_cache 5 "[5]"]
  note bad = dict_combiner[OF mvb, of ex_env None "''cat''" "[?x]" ex_dict_cache 5 "[5]"
      "[(''a'', Files (Single (dict_file [5, 5] array_x)))]" "''b''"
      "Files (Single (dict_file [5, 4] (map int [0..<20])))" "[]" "KId 2"
      "NDArray \<lparr>shape = [5, 4], vals = map int [0..<20]\<rparr>" ex_dict_cache]
  have prem: "entry_results ex_env ex_dict ''T'' None (Flag False) ''cat'' ex_key ex_dict_cache =
        Inr ([?x, ?y], ex_dict_cache) \<and>
      (\<forall>r\<in>set [?x, ?y]. shape (data_of r) = [5, 5] \<and> length (vals (data_of r)) = prod_list [5, 5])"
    using er lens by simp
  have len2: "length ex_dict = 2" by (simp add: ex_dict_def)
  note res = ok[THEN conjunct1, THEN mp, OF prem, unfolded len2]
  from res have a: "combine_dict ex_env ex_dict ''T'' None ''cat'' ex_key Map.empty =
     Inr (NDArray \<lparr>shape = [2, 5, 5], vals = array_x @ array_y\<rparr>, ex_dict_cache)"
    by (simp del: combine_dict.simps)
  from res have g: "\<forall>i<length [?x, ?y]. getitem_row \<lparr>shape = [2, 5, 5], vals = array_x @ array_y\<rparr> (int i) =
       Inr (data_of ([?x, ?y] ! i))"
    by (simp del: combine_dict.simps)
  from g[THEN spec, of 0] have g0: "getitem_row \<lparr>shape = [2, 5, 5], vals = array_x @ array_y\<rparr> 0 =
       Inr \<lparr>shape = [5, 5], vals = array_x\<rparr>"
    by simp
  from g[THEN spec, of 1] have g1: "getitem_row \<lparr>shape = [2, 5, 5], vals = array_x @ array_y\<rparr> 1 =
       Inr \<lparr>shape = [5, 5], vals = array_y\<rparr>"
    by simp
  from bad erb kb evb lens have b: "combine_dict ex_env ex_dict_bad ''T'' None ''cat'' ex_key Map.empty =
     Inl (ValueError ''data sequences must have the same size for all dictionary keys'')"
    by (simp add: ex_dict_bad_def del: combine_dict.simps extract_var.simps entry_results.simps)
  from a g0 g1 b show ?thesis by simp
qed

section \<open>Properties of the join combiner\<close>

lemma join_input_extents: "list_all2 (join_input varname s) ws ns \<Longrightarrow> has_extents ws ns"
  by (induction rule: list_all2_induct) (auto simp: has_extents_def join_input_def)















section \<open>Properties of the cat combiner\<close>









section \<open>Cache effects of the dictionary combiner\<close>

text \<open>
  Claim C9.  \<open>_combine_dict\<close> hands every entry the token \<^verbatim>\<open>_key[key]\<close> of the entry, not
  \<open>None\<close>, and an entry that is itself a dictionary runs the moving-domain detection
  again instead of using the flag it is given.  On the nested dictionary above the
  combination of the entry \<open>b\<close> searches the file of \<open>b\<close> and caches the outcome under the
  token 2 of that file, next to the outcome cached under the token 1 by the detection
  for the whole dictionary.
\<close>

theorem dict_entry_writes_cache:
  "combine_files ex_env nested_dict ''T'' None None ''cat'' False nested_key Map.empty =
     Inr (NDArray \<lparr>shape = [2, 1, 1, 2], vals = [1, 2, 3, 4]\<rparr>,
          cache_item (KId 2) ''is_moving_XLAT_XLONG'' (Flag False)
            (cache_item (KId 1) ''is_moving_XLAT_XLONG'' (Flag False) Map.empty))"
  by (simp add: nested_dict_def nested_key_def dict_file_def mk_var_def mv_defs ex_env_def
      is_time_coord_var_def get_iterable_def np_empty_def setitem_row_def broadcast_to_def
      chunks_def cache_item_def upt_rec)

end
